theory Spec2Isabelle
  imports Complex_Main "HOL-Library.AList"
begin

section \<open>JavaScript strings and numbers used by the library\<close>

text \<open>
  Strings are \<open>char list\<close>; the model covers the ASCII range. The white space that
  \<open>String.prototype.trim\<close>, the regular expression class \<open>\s\<close> and \<open>parseFloat\<close>
  skip is taken to be the six ASCII white-space characters.
\<close>

definition isSpace :: "char \<Rightarrow> bool" where
  "isSpace c = (c \<in> set [CHR '' '', CHR 0x09, CHR 0x0A, CHR 0x0B, CHR 0x0C, CHR 0x0D])"

definition isDigit :: "char \<Rightarrow> bool" where
  "isDigit c = (c \<in> set ''0123456789'')"

definition isUpper :: "char \<Rightarrow> bool" where
  "isUpper c = (c \<in> set ''ABCDEFGHIJKLMNOPQRSTUVWXYZ'')"

definition isLower :: "char \<Rightarrow> bool" where
  "isLower c = (c \<in> set ''abcdefghijklmnopqrstuvwxyz'')"

definition toLowerChar :: "char \<Rightarrow> char" where
  "toLowerChar c =
     (case map_of (zip ''ABCDEFGHIJKLMNOPQRSTUVWXYZ'' ''abcdefghijklmnopqrstuvwxyz'') c of
        Some l \<Rightarrow> l | None \<Rightarrow> c)"

definition toLowerCase :: "string \<Rightarrow> string" where
  "toLowerCase s = map toLowerChar s"

definition trimStart :: "string \<Rightarrow> string" where
  "trimStart s = dropWhile isSpace s"

definition trim :: "string \<Rightarrow> string" where
  "trim s = rev (dropWhile isSpace (rev (dropWhile isSpace s)))"

text \<open>\<open>s.endsWith(t)\<close> and \<open>s.slice(0, -n)\<close>.\<close>

definition endsWith :: "string \<Rightarrow> string \<Rightarrow> bool" where
  "endsWith s t = (length t \<le> length s \<and> drop (length s - length t) s = t)"

definition sliceEnd :: "string \<Rightarrow> nat \<Rightarrow> string" where
  "sliceEnd s n = take (length s - n) s"

text \<open>
  \<open>s.split(/\s+/)\<close>: the pieces between maximal runs of white space; a string that
  starts or ends with white space yields an empty first or last piece, as in JavaScript.
  The flag says that the scan is inside a run of white space, whose first character has
  already closed the piece before it.
\<close>

fun splitWs :: "string \<Rightarrow> bool \<Rightarrow> string \<Rightarrow> string list" where
  "splitWs cur inRun [] = [rev cur]"
| "splitWs cur inRun (c # cs) =
     (if isSpace c then (if inRun then splitWs cur True cs else rev cur # splitWs [] True cs)
      else splitWs (c # cur) False cs)"

definition classNames :: "string \<Rightarrow> string list" where
  \<comment> \<open>\<open>s.split(/\s+/).filter(cls => cls.trim() !== '')\<close>\<close>
  "classNames s = filter (\<lambda>cls. trim cls \<noteq> []) (splitWs [] False s)"

text \<open>
  Numbers: a finite value is an exact rational, next to NaN and the two infinities.
  The rounding of a decimal that has no exact double, and overflow to infinity, are
  outside the model.
\<close>

datatype jsnum = NaN | Fin rat | PosInf | NegInf

definition isNaN :: "jsnum \<Rightarrow> bool" where
  "isNaN n = (n = NaN)"

definition numLess0 :: "jsnum \<Rightarrow> bool" where
  \<comment> \<open>\<open>n < 0\<close>\<close>
  "numLess0 n = (case n of Fin q \<Rightarrow> q < 0 | NegInf \<Rightarrow> True | _ \<Rightarrow> False)"

definition numGreater0 :: "jsnum \<Rightarrow> bool" where
  \<comment> \<open>\<open>n > 0\<close>\<close>
  "numGreater0 n = (case n of Fin q \<Rightarrow> 0 < q | PosInf \<Rightarrow> True | _ \<Rightarrow> False)"

definition numTimes :: "jsnum \<Rightarrow> rat \<Rightarrow> jsnum" where
  \<comment> \<open>\<open>n * m\<close> for a positive finite \<open>m\<close> (the multipliers 1 and 1000)\<close>
  "numTimes n m = (case n of Fin q \<Rightarrow> Fin (q * m) | other \<Rightarrow> other)"

definition numTruthy :: "jsnum \<Rightarrow> bool" where
  "numTruthy n = (n \<noteq> NaN \<and> n \<noteq> Fin 0)"

definition digitVal :: "char \<Rightarrow> nat" where
  "digitVal c = (case map_of (zip ''0123456789'' [0, 1, 2, 3, 4, 5, 6, 7, 8, 9]) c of
                   Some d \<Rightarrow> d | None \<Rightarrow> 0)"

definition digitsVal :: "string \<Rightarrow> nat" where
  "digitsVal ds = foldl (\<lambda>a c. 10 * a + digitVal c) 0 ds"

definition startsWith :: "string \<Rightarrow> string \<Rightarrow> bool" where
  "startsWith s t = (take (length t) s = t)"

definition signOf :: "string \<Rightarrow> bool \<times> string" where
  \<comment> \<open>an optional leading sign: (negative?, rest)\<close>
  "signOf s = (case s of
       [] \<Rightarrow> (False, [])
     | c # r \<Rightarrow> if c = CHR ''-'' then (True, r)
                else if c = CHR ''+'' then (False, r) else (False, s))"

definition exponentOf :: "string \<Rightarrow> int" where
  \<comment> \<open>the exponent part \<open>[eE][+-]?digits\<close> at the head of the string, 0 when there is none\<close>
  "exponentOf s = (case s of
       [] \<Rightarrow> 0
     | c # r \<Rightarrow>
         if c = CHR ''e'' \<or> c = CHR ''E'' then
           (let (neg, r') = signOf r; ds = takeWhile isDigit r'
            in if ds = [] then 0
               else if neg then - int (digitsVal ds) else int (digitsVal ds))
         else 0)"

definition parseFloat :: "string \<Rightarrow> jsnum" where
  \<comment> \<open>the longest prefix, after leading white space, that is a decimal literal\<close>
  "parseFloat s =
     (let (neg, u) = signOf (trimStart s) in
      if startsWith u ''Infinity'' then (if neg then NegInf else PosInf)
      else
        let ip = takeWhile isDigit u;
            r1 = dropWhile isDigit u;
            (fp, r2) = (case r1 of
                          [] \<Rightarrow> ([], [])
                        | c # r \<Rightarrow> if c = CHR ''.''
                                   then (takeWhile isDigit r, dropWhile isDigit r)
                                   else ([], r1))
        in if ip = [] \<and> fp = [] then NaN
           else
             let mant = (of_nat (digitsVal (ip @ fp)) :: rat) / 10 ^ length fp;
                 v = mant * (10 powi exponentOf r2)
             in Fin (if neg then - v else v))"

text \<open>The warnings and errors that the library writes to the console.\<close>

datatype console =
    WarnInvalidDelay string
  | WarnSelector string
  | WarnChildrenSelector string
  | WarnClassConflict "string list" "string list" "string list"
  | WarnContentMethod "string option"
  | WarnScrollTo string
  | WarnBootstrap
  | ErrorCondition string
  | ErrorConditionAction string
  | ErrorExecute string

section \<open>The \<open>data-class-*\<close> family: the delay attribute\<close>

text \<open>
  The delay block of the \<open>data-class\<close> event handler. The argument is
  \<open>this.getAttribute(`data-class-delay${suffix}`)\<close> (\<open>None\<close> for \<open>null\<close>); the
  result is the delay in milliseconds that the handler then passes to \<open>setTimeout\<close>,
  with the warnings written to the console.
\<close>

definition dataClassDelay :: "string option \<Rightarrow> jsnum \<times> console list" where
  "dataClassDelay attr =
     (case attr of
        None \<Rightarrow> (Fin 0, [])
      | Some a \<Rightarrow>
          let delay0 = trim a;
              (multiplier, delay1) =
                 (if endsWith delay0 ''s'' then (1000, trim (sliceEnd delay0 1))
                  else if endsWith delay0 ''ms'' then (1, trim (sliceEnd delay0 2))
                  else (1, trim delay0));
              delay2 = numTimes (parseFloat delay1) multiplier
          in if isNaN delay2 \<or> numLess0 delay2 then (Fin 0, [WarnInvalidDelay a])
             else (delay2, []))"

section \<open>The option reader\<close>

text \<open>
  \<open>camelToSnakeCase\<close>: a dash before every run of digits, a dash and the lower-case
  letter for every capital, runs of dashes collapsed to one, leading and trailing dashes
  removed. The flags say that the previous character was a digit (a dash).
\<close>

fun dashDigits :: "bool \<Rightarrow> string \<Rightarrow> string" where
  "dashDigits prevDigit [] = []"
| "dashDigits prevDigit (c # cs) =
     (if isDigit c then (if prevDigit then [c] else [CHR ''-'', c]) @ dashDigits True cs
      else c # dashDigits False cs)"

definition dashCapitals :: "string \<Rightarrow> string" where
  "dashCapitals s = concat (map (\<lambda>c. if isUpper c then [CHR ''-'', toLowerChar c] else [c]) s)"

fun collapseDashes :: "bool \<Rightarrow> string \<Rightarrow> string" where
  "collapseDashes prevDash [] = []"
| "collapseDashes prevDash (c # cs) =
     (if c = CHR ''-'' then (if prevDash then [] else [c]) @ collapseDashes True cs
      else c # collapseDashes False cs)"

definition stripDashes :: "string \<Rightarrow> string" where
  "stripDashes s =
     rev (dropWhile (\<lambda>c. c = CHR ''-'') (rev (dropWhile (\<lambda>c. c = CHR ''-'') s)))"

definition camelToSnakeCase :: "string \<Rightarrow> string" where
  "camelToSnakeCase str =
     stripDashes (collapseDashes False (dashCapitals (dashDigits False str)))"

text \<open>
  Values of an options object. A key that an object does not have reads as
  \<open>Undefined\<close>. Function values, which only a programmatic caller of
  \<open>EventActions.execute\<close> can pass, are not part of the model: the interpreter takes
  every option from an attribute.
\<close>

datatype jsval = Null | Undefined | Bool bool | Num jsnum | Str string

type_synonym options = "(string \<times> jsval) list"

definition getProp :: "options \<Rightarrow> string \<Rightarrow> jsval" where
  \<comment> \<open>\<open>options[key]\<close>\<close>
  "getProp opts key = (case map_of opts key of Some v \<Rightarrow> v | None \<Rightarrow> Undefined)"

text \<open>
  An element: its attributes (names in lower case, as an HTML document stores them),
  its class list, its content, its scroll geometry, the inline handlers
  \<open>el.on<type>\<close>, the listeners added with \<open>addEventListener\<close> in the order they
  were added, and the library's bookkeeping \<open>el._eventActions\<close>. A handler and a
  listener are function objects, known by their identity.

  The bookkeeping object has one property per attached event type, holding the inline
  handler that was there (or \<open>null\<close>), and the property \<open>handlers\<close>, an object
  from event types to the installed listeners.
\<close>

datatype bookval = OrigHandler nat | OrigNull | Handlers "(string \<times> nat) list"

record element =
  attributes :: "(string \<times> string) list"
  classList :: "string list"
  content :: string
  scrollTop :: int
  scrollLeft :: int
  scrollHeight :: int
  scrollWidth :: int
  inline :: "(string \<times> nat) list"
  listeners :: "(string \<times> nat) list"
  eventActions :: "(string \<times> bookval) list option"

definition getAttribute :: "element \<Rightarrow> string \<Rightarrow> string option" where
  "getAttribute el name = map_of (attributes el) name"

fun hasDashLower :: "string \<Rightarrow> bool" where
  \<comment> \<open>a dash followed by a lower-case letter occurs in the name\<close>
  "hasDashLower (a # b # cs) = ((a = CHR ''-'' \<and> isLower b) \<or> hasDashLower (b # cs))"
| "hasDashLower _ = False"

definition dataset :: "element \<Rightarrow> string \<Rightarrow> string option" where
  \<comment> \<open>\<open>el.dataset[name]\<close>: the attribute whose name, camel-cased, is \<open>name\<close>\<close>
  "dataset el name =
     (if hasDashLower name then None
      else getAttribute el (''data-'' @ dashCapitals name))"

definition attributeValue :: "element \<Rightarrow> string \<Rightarrow> string option" where
  \<comment> \<open>\<open>el.dataset[attributeName] || el.getAttribute(`data-${attributeName}`)\<close>\<close>
  "attributeValue el attributeName =
     (case dataset el attributeName of
        Some v \<Rightarrow> if v \<noteq> [] then Some v else getAttribute el (''data-'' @ attributeName)
      | None \<Rightarrow> getAttribute el (''data-'' @ attributeName))"

definition coerce :: "jsval \<Rightarrow> string \<Rightarrow> jsval" where
  \<comment> \<open>the conversion of an attribute's text by the type of the default\<close>
  "coerce dflt text =
     (case dflt of
        Bool _ \<Rightarrow> Bool (toLowerCase text = ''true'')
      | Num _ \<Rightarrow> Num (parseFloat text)
      | _ \<Rightarrow> Str text)"

definition prefixStr :: "string \<Rightarrow> string" where
  "prefixStr prefix = (if prefix \<noteq> [] then camelToSnakeCase prefix @ ''-'' else [])"

definition readOption :: "element \<Rightarrow> string \<Rightarrow> bool \<Rightarrow> options \<Rightarrow> string \<times> jsval \<Rightarrow> options" where
  \<comment> \<open>one round of the loop over \<open>Object.keys(defaultOptions)\<close>\<close>
  "readOption el pstr onlyExisting opts entry =
     (case attributeValue el (pstr @ camelToSnakeCase (fst entry)) of
        Some v \<Rightarrow> AList.update (fst entry) (coerce (snd entry) v) opts
      | None \<Rightarrow> if \<not> onlyExisting then AList.update (fst entry) (snd entry) opts else opts)"

definition getElementOptions :: "element \<Rightarrow> options \<Rightarrow> string \<Rightarrow> bool \<Rightarrow> options" where
  "getElementOptions el defaultOptions prefix onlyExisting =
     foldl (readOption el (prefixStr prefix) onlyExisting) [] defaultOptions"

section \<open>Executing one action\<close>

text \<open>
  The schema \<open>DEFAULT_OPTIONS_ACTION\<close>, in the order of its keys.
\<close>

definition defaultActionOptions :: options where
  "defaultActionOptions =
     [(''condition'', Null), (''conditionAction'', Null), (''confirm'', Null),
      (''confirmAcceptText'', Str ''OK''), (''confirmCancelText'', Str ''Cancel''),
      (''execute'', Null), (''target'', Null), (''targetChildren'', Null),
      (''classAdd'', Null), (''classRemove'', Null), (''classToggle'', Null),
      (''classSet'', Null), (''scrollTo'', Null), (''contentMethod'', Str ''innerHTML''),
      (''contentSet'', Null), (''contentAppend'', Null), (''contentPrepend'', Null),
      (''contentClear'', Null), (''delay'', Num (Fin 0)), (''acknowledge'', Null),
      (''acknowledgeButton'', Str ''OK''), (''splash'', Null)]"

text \<open>
  The options of one step, after \<open>Object.assign({}, defaultActionOptions, options)\<close>.
  What the reader takes from an attribute under this schema is text for every key but
  \<open>delay\<close>, and a number for \<open>delay\<close>; the record holds exactly these values,
  \<open>None\<close> for \<open>null\<close>.
\<close>

record actionOptions =
  condition :: "string option"
  conditionAction :: "string option"
  confirm :: "string option"
  confirmAcceptText :: "string option"
  confirmCancelText :: "string option"
  execute :: "string option"
  target :: "string option"
  targetChildren :: "string option"
  classAdd :: "string option"
  classRemove :: "string option"
  classToggle :: "string option"
  classSet :: "string option"
  scrollTo :: "string option"
  contentMethod :: "string option"
  contentSet :: "string option"
  contentAppend :: "string option"
  contentPrepend :: "string option"
  contentClear :: "string option"
  delay :: jsnum
  acknowledge :: "string option"
  acknowledgeButton :: "string option"
  splash :: "string option"

definition textOf :: "options \<Rightarrow> string \<Rightarrow> string option" where
  \<comment> \<open>the merged value of a key whose default is text or \<open>null\<close>\<close>
  "textOf opts key =
     (case map_of opts key of
        Some (Str s) \<Rightarrow> Some s
      | Some _ \<Rightarrow> None
      | None \<Rightarrow> (case getProp defaultActionOptions key of Str s \<Rightarrow> Some s | _ \<Rightarrow> None))"

definition numberOf :: "options \<Rightarrow> string \<Rightarrow> jsnum" where
  \<comment> \<open>the merged value of a key whose default is a number\<close>
  "numberOf opts key =
     (case map_of opts key of
        Some (Num n) \<Rightarrow> n
      | Some (Str s) \<Rightarrow> parseFloat s
      | Some _ \<Rightarrow> NaN
      | None \<Rightarrow> (case getProp defaultActionOptions key of Num n \<Rightarrow> n | _ \<Rightarrow> NaN))"

definition assignDefaults :: "options \<Rightarrow> actionOptions" where
  "assignDefaults opts =
     \<lparr> condition = textOf opts ''condition'',
       conditionAction = textOf opts ''conditionAction'',
       confirm = textOf opts ''confirm'',
       confirmAcceptText = textOf opts ''confirmAcceptText'',
       confirmCancelText = textOf opts ''confirmCancelText'',
       execute = textOf opts ''execute'',
       target = textOf opts ''target'',
       targetChildren = textOf opts ''targetChildren'',
       classAdd = textOf opts ''classAdd'',
       classRemove = textOf opts ''classRemove'',
       classToggle = textOf opts ''classToggle'',
       classSet = textOf opts ''classSet'',
       scrollTo = textOf opts ''scrollTo'',
       contentMethod = textOf opts ''contentMethod'',
       contentSet = textOf opts ''contentSet'',
       contentAppend = textOf opts ''contentAppend'',
       contentPrepend = textOf opts ''contentPrepend'',
       contentClear = textOf opts ''contentClear'',
       delay = numberOf opts ''delay'',
       acknowledge = textOf opts ''acknowledge'',
       acknowledgeButton = textOf opts ''acknowledgeButton'',
       splash = textOf opts ''splash'' \<rparr>"

text \<open>\<open>x || null\<close>, \<open>x || 'text'\<close> and \<open>sanitizeValue\<close> on such values.\<close>

definition orNull :: "string option \<Rightarrow> string option" where
  "orNull x = (case x of Some s \<Rightarrow> if s \<noteq> [] then Some s else None | None \<Rightarrow> None)"

definition orText :: "string option \<Rightarrow> string \<Rightarrow> string option" where
  "orText x d = (case x of Some s \<Rightarrow> if s \<noteq> [] then Some s else Some d | None \<Rightarrow> Some d)"

definition sanitizeValue :: "string option \<Rightarrow> string option" where
  "sanitizeValue v =
     (case v of
        None \<Rightarrow> None
      | Some s \<Rightarrow> if trim s = [] then None else Some (trim s))"

text \<open>
  What a run can be observed to do, in order: console output, dialogs, the custom
  \<open>execute\<close> expression, waiting, the splash overlay, the two calls on the event
  object, the replay of the inline handler. \<open>Invoke\<close> records that the interpreter
  calls \<open>executeAction\<close> for a step; it is how the theorems say which steps execute.
\<close>

datatype stepName = First | Numbered nat | Last | Finally

datatype event =
    Console console
  | ConfirmDialog string "string option" "string option"
  | MessageDialog string "string option"
  | Executed string
  | Waited jsnum
  | SplashShown string
  | SplashHidden
  | PreventDefault
  | StopPropagation
  | Invoke stepName
  | NativeReplay nat

type_synonym document = "nat \<Rightarrow> element"

record world =
  dom :: document
  trace :: "event list"
  dialogs :: nat
  fresh :: nat

definition emit :: "event list \<Rightarrow> world \<Rightarrow> world" where
  "emit es w = w\<lparr>trace := trace w @ es\<rparr>"

text \<open>
  What the library calls and does not define. \<open>querySelectorAll\<close> on the document
  and on an element return the matches, or \<open>None\<close> when the selector is invalid and the
  call throws. A condition is text that \<open>eval\<close> turns into a value (a function value
  is called with the targets): the model takes it as a reading of the document that
  yields a truth value, or \<open>None\<close> when it throws. The custom \<open>execute\<close> text may
  change the document, and reports whether it threw; so does an inline handler. A dialog
  is answered: dialog number n is accepted or cancelled (a message dialog can be
  dismissed with the Escape key when the Bootstrap modal shows it, which rejects its
  promise). \<open>hasBootstrap\<close> says that \<open>bootstrap.Modal\<close> is available.
\<close>

record env =
  documentQuery :: "string \<Rightarrow> document \<Rightarrow> nat list option"
  elementQuery :: "nat \<Rightarrow> string \<Rightarrow> document \<Rightarrow> nat list option"
  evalCondition :: "string \<Rightarrow> nat \<Rightarrow> nat list \<Rightarrow> document \<Rightarrow> bool option"
  evalExecute :: "string \<Rightarrow> nat \<Rightarrow> nat list \<Rightarrow> document \<Rightarrow> bool \<times> document"
  callInline :: "nat \<Rightarrow> nat \<Rightarrow> document \<Rightarrow> bool \<times> document"
  dialogAccepted :: "nat \<Rightarrow> bool"
  hasBootstrap :: bool

definition resolveTargets :: "env \<Rightarrow> nat \<Rightarrow> actionOptions \<Rightarrow> world \<Rightarrow> nat list \<times> world" where
  "resolveTargets e el opts w =
     (let targetSelector = sanitizeValue (orNull (target opts));
          targetChildrenSelector = sanitizeValue (orNull (targetChildren opts))
      in if targetSelector = None \<and> targetChildrenSelector = None then ([el], w)
         else
           let (t1, w1) =
                 (case targetSelector of
                    None \<Rightarrow> ([], w)
                  | Some sel \<Rightarrow>
                      (case documentQuery e sel (dom w) of
                         Some ms \<Rightarrow> (ms, w)
                       | None \<Rightarrow> ([], emit [Console (WarnSelector sel)] w)));
               (t2, w2) =
                 (case targetChildrenSelector of
                    None \<Rightarrow> (t1, w1)
                  | Some sel \<Rightarrow>
                      (case elementQuery e el sel (dom w1) of
                         Some ms \<Rightarrow> (t1 @ ms, w1)
                       | None \<Rightarrow> (t1, emit [Console (WarnChildrenSelector sel)] w1)))
           in (t2, w2))"

text \<open>The class list of an element is a token list: no token twice.\<close>

definition tokenAdd :: "string \<Rightarrow> string list \<Rightarrow> string list" where
  "tokenAdd cls cl = (if cls \<in> set cl then cl else cl @ [cls])"

definition tokenRemove :: "string \<Rightarrow> string list \<Rightarrow> string list" where
  "tokenRemove cls cl = filter (\<lambda>c. c \<noteq> cls) cl"

definition tokenToggle :: "string \<Rightarrow> string list \<Rightarrow> string list" where
  "tokenToggle cls cl = (if cls \<in> set cl then tokenRemove cls cl else cl @ [cls])"

definition applyClassesTo ::
    "string list \<Rightarrow> string list \<Rightarrow> string list \<Rightarrow> string list \<Rightarrow> element \<Rightarrow> element" where
  \<comment> \<open>the body of the loop of \<open>applyClasses\<close>\<close>
  "applyClassesTo classListSet classListToggle classListAdd classListRemove targetElement =
     (if length classListSet > 0
      then targetElement\<lparr>classList := fold tokenAdd classListSet []\<rparr>
      else targetElement\<lparr>classList :=
             fold tokenRemove classListRemove
               (fold tokenAdd classListAdd
                  (fold tokenToggle classListToggle (classList targetElement)))\<rparr>)"

definition onTargets :: "(element \<Rightarrow> element) \<Rightarrow> nat list \<Rightarrow> document \<Rightarrow> document" where
  \<comment> \<open>\<open>for (const targetElement of targetElements)\<close>\<close>
  "onTargets f targetElements d = fold (\<lambda>t d'. d'(t := f (d' t))) targetElements d"

definition applyContentTo ::
    "bool \<Rightarrow> string option \<Rightarrow> string option \<Rightarrow> string option \<Rightarrow> element \<Rightarrow> element" where
  \<comment> \<open>the body of the loop of \<open>applyContentChanges\<close>; either accessor,
      \<open>innerHTML\<close> or \<open>textContent\<close>, reads and writes the content of the element
      as text (parsing and escaping markup is the browser's)\<close>
  "applyContentTo cClear cSet cAppend cPrepend targetElement =
     (let c1 = (if cClear then [] else content targetElement);
          c2 = (case cSet of Some s \<Rightarrow> s | None \<Rightarrow> c1);
          c3 = (case cAppend of Some s \<Rightarrow> c2 @ s | None \<Rightarrow> c2);
          c4 = (case cPrepend of Some s \<Rightarrow> s @ c3 | None \<Rightarrow> c3)
      in targetElement\<lparr>content := c4\<rparr>)"

definition scrollElement :: "string \<Rightarrow> element \<Rightarrow> element" where
  \<comment> \<open>the \<open>switch\<close> of \<open>applyScroll\<close>; the assigned offset is stored as it is
      (clamping it to the scrollable range is the browser's)\<close>
  "scrollElement keyword targetElement =
     (if keyword = ''top'' then targetElement\<lparr>scrollTop := 0\<rparr>
      else if keyword = ''bottom'' then targetElement\<lparr>scrollTop := scrollHeight targetElement\<rparr>
      else if keyword = ''left'' then targetElement\<lparr>scrollLeft := 0\<rparr>
      else if keyword = ''right'' then targetElement\<lparr>scrollLeft := scrollWidth targetElement\<rparr>
      else targetElement)"

definition applyScroll :: "string option \<Rightarrow> nat list \<Rightarrow> document \<Rightarrow> document" where
  \<comment> \<open>the loop leaves at the end of its first round\<close>
  "applyScroll keyword targetElements d =
     (case keyword of
        None \<Rightarrow> d
      | Some k \<Rightarrow>
          (case targetElements of
             [] \<Rightarrow> d
           | t # _ \<Rightarrow> d(t := scrollElement k (d t))))"

text \<open>
  \<open>executeAction\<close> is an async function: it fulfils its promise with \<open>true\<close>,
  \<open>false\<close> or \<open>undefined\<close>, or rejects it when an exception escapes.
\<close>

datatype ret = RetTrue | RetFalse | RetUndefined

datatype completion = Returned ret | Thrown

definition conditionStage :: "env \<Rightarrow> nat \<Rightarrow> nat list \<Rightarrow> actionOptions \<Rightarrow> world \<Rightarrow> bool \<times> world" where
  \<comment> \<open>whether the sequence-level condition lets the action go on\<close>
  "conditionStage e el targetElements opts w =
     (case sanitizeValue (orNull (condition opts)) of
        None \<Rightarrow> (True, w)
      | Some c \<Rightarrow>
          (case evalCondition e c el targetElements (dom w) of
             Some result \<Rightarrow> (result, w)
           | None \<Rightarrow> (False, emit [Console (ErrorCondition c)] w)))"

definition conditionActionStage ::
    "env \<Rightarrow> nat \<Rightarrow> nat list \<Rightarrow> actionOptions \<Rightarrow> world \<Rightarrow> bool \<times> world" where
  \<comment> \<open>the value of \<open>shouldSkipAction\<close>\<close>
  "conditionActionStage e el targetElements opts w =
     (case sanitizeValue (orNull (conditionAction opts)) of
        None \<Rightarrow> (False, w)
      | Some c \<Rightarrow>
          (case evalCondition e c el targetElements (dom w) of
             Some result \<Rightarrow> (\<not> result, w)
           | None \<Rightarrow> (True, emit [Console (ErrorConditionAction c)] w)))"

definition openDialog :: "env \<Rightarrow> event \<Rightarrow> world \<Rightarrow> world" where
  \<comment> \<open>a dialog is shown: by the Bootstrap modal, or natively after the warning of
      \<open>bsCreateModal\<close>\<close>
  "openDialog e ev w =
     (emit ((if hasBootstrap e then [] else [Console WarnBootstrap]) @ [ev]) w)
       \<lparr>dialogs := Suc (dialogs w)\<rparr>"

definition confirmStage :: "env \<Rightarrow> actionOptions \<Rightarrow> world \<Rightarrow> bool \<times> world" where
  \<comment> \<open>whether the user lets the action go on\<close>
  "confirmStage e opts w =
     (case sanitizeValue (orNull (confirm opts)) of
        None \<Rightarrow> (True, w)
      | Some confirmMessage \<Rightarrow>
          (let acceptText = sanitizeValue (orText (confirmAcceptText opts) ''OK'');
               cancelText = sanitizeValue (orText (confirmCancelText opts) ''Cancel'')
           in (dialogAccepted e (dialogs w),
               openDialog e (ConfirmDialog confirmMessage acceptText cancelText) w)))"

definition executeStage :: "env \<Rightarrow> nat \<Rightarrow> nat list \<Rightarrow> actionOptions \<Rightarrow> world \<Rightarrow> world" where
  "executeStage e el targetElements opts w =
     (case sanitizeValue (orNull (execute opts)) of
        None \<Rightarrow> w
      | Some x \<Rightarrow>
          (let (threw, d) = evalExecute e x el targetElements (dom w)
           in emit (Executed x # (if threw then [Console (ErrorExecute x)] else []))
                (w\<lparr>dom := d\<rparr>)))"

definition classListOf :: "string option \<Rightarrow> string list" where
  \<comment> \<open>\<open>classes ? classes.split(/\s+/).filter(...) : []\<close> on the sanitized option\<close>
  "classListOf v = (case sanitizeValue (orNull v) of Some s \<Rightarrow> classNames s | None \<Rightarrow> [])"

definition classesIntersect :: "string list \<Rightarrow> string list \<Rightarrow> string list \<Rightarrow> bool" where
  "classesIntersect classListAdd classListRemove classListToggle =
     (length (filter (\<lambda>cls. cls \<in> set classListRemove) classListAdd) > 0 \<or>
      length (filter (\<lambda>cls. cls \<in> set classListToggle) classListAdd) > 0 \<or>
      length (filter (\<lambda>cls. cls \<in> set classListToggle) classListRemove) > 0)"

definition acknowledgeStage :: "env \<Rightarrow> actionOptions \<Rightarrow> world \<Rightarrow> completion \<times> world" where
  "acknowledgeStage e opts w =
     (case sanitizeValue (orNull (acknowledge opts)) of
        None \<Rightarrow> (Returned RetTrue, w)
      | Some acknowledgeMessage \<Rightarrow>
          (let button = sanitizeValue (orText (acknowledgeButton opts) ''OK'');
               w' = openDialog e (MessageDialog acknowledgeMessage button) w
           in if hasBootstrap e \<and> \<not> dialogAccepted e (dialogs w) then (Thrown, w')
              else (Returned RetTrue, w')))"

definition invalidKeyword :: "string option \<Rightarrow> string option" where
  \<comment> \<open>the keyword when \<open>scrollTo && !['top', 'bottom', 'left', 'right'].includes(scrollTo)\<close>\<close>
  "invalidKeyword keyword =
     (case keyword of
        Some k \<Rightarrow> if k \<notin> set [''top'', ''bottom'', ''left'', ''right''] then Some k else None
      | None \<Rightarrow> None)"

definition applyEffects :: "nat list \<Rightarrow> actionOptions \<Rightarrow> document \<Rightarrow> document" where
  \<comment> \<open>\<open>applyClasses(); applyContentChanges(); applyScroll();\<close>\<close>
  "applyEffects targetElements opts d =
     (let d1 = onTargets
                 (applyClassesTo (classListOf (classSet opts)) (classListOf (classToggle opts))
                    (classListOf (classAdd opts)) (classListOf (classRemove opts)))
                 targetElements d;
          d2 = onTargets
                 (applyContentTo
                    (contentClear opts = Some ''true'' \<or> contentClear opts = Some [])
                    (sanitizeValue (orNull (contentSet opts)))
                    (sanitizeValue (orNull (contentAppend opts)))
                    (sanitizeValue (orNull (contentPrepend opts))))
                 targetElements d1
      in applyScroll (sanitizeValue (orNull (scrollTo opts))) targetElements d2)"

definition effectsStage ::
    "env \<Rightarrow> nat list \<Rightarrow> actionOptions \<Rightarrow> world \<Rightarrow> completion \<times> world" where
  \<comment> \<open>from the class lists to the end of \<open>executeAction\<close>\<close>
  "effectsStage e targetElements opts w =
     (let classListAdd = classListOf (classAdd opts);
          classListRemove = classListOf (classRemove opts);
          classListToggle = classListOf (classToggle opts)
      in if classesIntersect classListAdd classListRemove classListToggle
         then (Returned RetFalse,
               emit [Console (WarnClassConflict classListAdd classListRemove classListToggle)] w)
         else
           let accessor = sanitizeValue (orText (contentMethod opts) ''innerHTML'')
           in if accessor \<notin> set [Some ''innerHTML'', Some ''textContent'']
              then (Returned RetUndefined, emit [Console (WarnContentMethod accessor)] w)
              else
                (case invalidKeyword (sanitizeValue (orNull (scrollTo opts))) of
                   Some k \<Rightarrow>
                     \<comment> \<open>\<open>scrollTo = null\<close> assigns to a constant: a TypeError\<close>
                     (Thrown, emit [Console (WarnScrollTo k)] w)
                 | None \<Rightarrow>
                     let d = (if numTruthy (delay opts) then delay opts else Fin 0);
                         w1 = (if numGreater0 d \<and> \<not> isNaN d then emit [Waited d] w else w)
                     in acknowledgeStage e opts
                          (w1\<lparr>dom := applyEffects targetElements opts (dom w1)\<rparr>)))"

text \<open>
  The head of \<open>executeAction\<close>, up to the confirmation: the three places where it
  returns before any effect, or the targets and the world with which it goes on.
\<close>

datatype gate =
    ConditionUnmet (gateWorld: world)
  | ActionSkipped (gateWorld: world)
  | ConfirmCancelled (gateWorld: world)
  | Proceeds (gateTargets: "nat list") (gateWorld: world)

definition gateOf :: "env \<Rightarrow> nat \<Rightarrow> actionOptions \<Rightarrow> world \<Rightarrow> gate" where
  "gateOf e el opts w0 =
     (let (targetElements, w1) = resolveTargets e el opts w0;
          (proceed, w2) = conditionStage e el targetElements opts w1
      in if \<not> proceed then ConditionUnmet w2
         else
           let (shouldSkipAction, w3) = conditionActionStage e el targetElements opts w2
           in if shouldSkipAction then ActionSkipped w3
              else
                let (confirmed, w4) = confirmStage e opts w3
                in if \<not> confirmed then ConfirmCancelled w4
                   else Proceeds targetElements w4)"

definition executeAction :: "env \<Rightarrow> nat \<Rightarrow> actionOptions \<Rightarrow> world \<Rightarrow> completion \<times> world" where
  "executeAction e el opts w0 =
     (case gateOf e el opts w0 of
        ConditionUnmet w \<Rightarrow> (Returned RetFalse, w)
      | ActionSkipped w \<Rightarrow> (Returned RetTrue, w)
      | ConfirmCancelled w \<Rightarrow> (Returned RetFalse, w)
      | Proceeds targetElements w \<Rightarrow>
          effectsStage e targetElements opts (executeStage e el targetElements opts w))"

section \<open>The interpreter: the listener installed by \<open>addEventActions\<close>\<close>

function showNat :: "nat \<Rightarrow> string" where
  \<comment> \<open>the decimal digits of the counter, as the template \<open>`${prefix}-${i}`\<close> writes it\<close>
  "showNat n =
     (if n < 10 then [''0123456789'' ! n]
      else showNat (n div 10) @ [''0123456789'' ! (n mod 10)])"
  by pat_completeness auto
termination
  by (relation "measure id") auto

fun stepPrefix :: "string \<Rightarrow> stepName \<Rightarrow> string" where
  "stepPrefix prefix First = prefix"
| "stepPrefix prefix (Numbered i) = prefix @ ''-'' @ showNat i"
| "stepPrefix prefix Last = prefix @ ''-last''"
| "stepPrefix prefix Finally = prefix @ ''-finally''"

definition stepOptions :: "nat \<Rightarrow> string \<Rightarrow> stepName \<Rightarrow> world \<Rightarrow> options" where
  \<comment> \<open>\<open>getElementOptions(el, EventActions.defaultActionOptions, <prefix of the step>, true)\<close>\<close>
  "stepOptions el prefix name w =
     getElementOptions (dom w el) defaultActionOptions (stepPrefix prefix name) True"

text \<open>
  The local variables of the listener: \<open>conditionMet\<close> (only its truth matters) and
  \<open>splashDlg\<close> (whether it holds an overlay), next to the world.
\<close>

record istate =
  wld :: world
  conditionMet :: bool
  splashDlg :: bool

text \<open>An exception that escapes \<open>executeAction\<close> or the inline handler ends the listener.\<close>

datatype flow = Go istate | Abort world

definition hideSplash :: "istate \<Rightarrow> istate" where
  \<comment> \<open>\<open>if (splashDlg) { splashDlg.modal.hide(); splashDlg = null; }\<close>\<close>
  "hideSplash st =
     (if splashDlg st then st\<lparr>wld := emit [SplashHidden] (wld st), splashDlg := False\<rparr> else st)"

definition splashDialog :: "env \<Rightarrow> string \<Rightarrow> istate \<Rightarrow> istate" where
  \<comment> \<open>\<open>splashDlg = splashDialog(options.splash)\<close>: \<open>null\<close> without Bootstrap\<close>
  "splashDialog e s st =
     (if hasBootstrap e then st\<lparr>wld := emit [SplashShown s] (wld st), splashDlg := True\<rparr>
      else st\<lparr>wld := emit [Console WarnBootstrap] (wld st), splashDlg := False\<rparr>)"

definition showSplash :: "env \<Rightarrow> actionOptions \<Rightarrow> istate \<Rightarrow> istate" where
  \<comment> \<open>\<open>if (conditionMet && options.splash) { ... }\<close>\<close>
  "showSplash e opts st =
     (case orNull (splash opts) of
        Some s \<Rightarrow> if conditionMet st then splashDialog e s (hideSplash st) else st
      | None \<Rightarrow> st)"

definition firstStep :: "env \<Rightarrow> nat \<Rightarrow> string \<Rightarrow> istate \<Rightarrow> flow" where
  "firstStep e el prefix st =
     (let options = stepOptions el prefix First (wld st)
      in if length options > 0 then
           (let opts = assignDefaults options;
                (c, w) = executeAction e el opts (emit [Invoke First] (wld st))
            in case c of
                 Thrown \<Rightarrow> Abort w
               | Returned r \<Rightarrow>
                   Go (showSplash e opts (st\<lparr>wld := w, conditionMet := (r = RetTrue)\<rparr>)))
         else Go st)"

definition clearsSplash :: "options \<Rightarrow> bool" where
  \<comment> \<open>\<open>clearSplash\<close>, on the options as the reader returned them\<close>
  "clearsSplash options =
     (getProp options ''splash'' \<in> set [Null, Str [], Str ''false'', Str ''0'', Bool False])"

definition numberedStep :: "env \<Rightarrow> nat \<Rightarrow> options \<Rightarrow> nat \<Rightarrow> istate \<Rightarrow> flow" where
  \<comment> \<open>one round of the loop, for the options found under the counter\<close>
  "numberedStep e el options i st =
     (let clearSplash = clearsSplash options;
          opts = assignDefaults options;
          (c, w) = executeAction e el opts (emit [Invoke (Numbered i)] (wld st))
      in case c of
           Thrown \<Rightarrow> Abort w
         | Returned r \<Rightarrow>
             (let st1 = st\<lparr>wld := w, conditionMet := (r = RetTrue)\<rparr>;
                  st2 = (if clearSplash then hideSplash st1 else st1)
              in Go (showSplash e opts st2)))"

partial_function (option) numberedSteps ::
    "env \<Rightarrow> nat \<Rightarrow> string \<Rightarrow> nat \<Rightarrow> istate \<Rightarrow> flow option" where
  "numberedSteps e el prefix i st =
     (if conditionMet st then
        (let options = stepOptions el prefix (Numbered i) (wld st)
         in if length options > 0 then
              (case numberedStep e el options i st of
                 Abort w \<Rightarrow> Some (Abort w)
               | Go st' \<Rightarrow> numberedSteps e el prefix (Suc i) st')
            else Some (Go st))
      else Some (Go st))"

declare numberedSteps.simps [code]

definition closingStep :: "env \<Rightarrow> nat \<Rightarrow> string \<Rightarrow> stepName \<Rightarrow> istate \<Rightarrow> flow" where
  \<comment> \<open>the \<open>-last\<close> and the \<open>-finally\<close> action: the value of \<open>executeAction\<close> is not kept\<close>
  "closingStep e el prefix name st =
     (let options = stepOptions el prefix name (wld st)
      in if length options > 0 then
           (let opts = assignDefaults options;
                (c, w) = executeAction e el opts (emit [Invoke name] (wld st))
            in case c of
                 Thrown \<Rightarrow> Abort w
               | Returned r \<Rightarrow>
                   (let st1 = st\<lparr>wld := w\<rparr>;
                        st2 = (if splash opts = None then hideSplash st1 else st1)
                    in Go (showSplash e opts st2)))
         else Go st)"

definition recordedHandler :: "element \<Rightarrow> string \<Rightarrow> nat option" where
  \<comment> \<open>the inline handler under \<open>el._eventActions[eventType]\<close>, when there is one\<close>
  "recordedHandler elem eventType =
     (case eventActions elem of
        None \<Rightarrow> None
      | Some book \<Rightarrow> (case map_of book eventType of Some (OrigHandler h) \<Rightarrow> Some h | _ \<Rightarrow> None))"

definition replayInline :: "env \<Rightarrow> nat \<Rightarrow> string \<Rightarrow> istate \<Rightarrow> flow" where
  "replayInline e el eventType st =
     (if conditionMet st then
        (case recordedHandler (dom (wld st) el) eventType of
           Some h \<Rightarrow>
             (let (threw, d) = callInline e h el (dom (wld st));
                  w = emit [NativeReplay h] ((wld st)\<lparr>dom := d\<rparr>)
              in if threw then Abort w else Go (st\<lparr>wld := w\<rparr>))
         | None \<Rightarrow> Go st)
      else Go st)"

definition afterNumbered :: "env \<Rightarrow> nat \<Rightarrow> string \<Rightarrow> string \<Rightarrow> istate \<Rightarrow> flow" where
  \<comment> \<open>the listener from the end of the loop on\<close>
  "afterNumbered e el eventType prefix st =
     (case (if conditionMet st then closingStep e el prefix Last st else Go st) of
        Abort w \<Rightarrow> Abort w
      | Go st1 \<Rightarrow>
          (case closingStep e el prefix Finally st1 of
             Abort w \<Rightarrow> Abort w
           | Go st2 \<Rightarrow>
               (case replayInline e el eventType st2 of
                  Abort w \<Rightarrow> Abort w
                | Go st3 \<Rightarrow> Go (hideSplash st3))))"

definition startState :: "world \<Rightarrow> istate" where
  \<comment> \<open>the listener after its two calls on the event object\<close>
  "startState w =
     \<lparr>wld = emit [PreventDefault, StopPropagation] w, conditionMet = True, splashDlg = False\<rparr>"

definition actionHandler :: "env \<Rightarrow> nat \<Rightarrow> string \<Rightarrow> string \<Rightarrow> world \<Rightarrow> flow option" where
  \<comment> \<open>the listener for element \<open>el\<close>, run on an event; \<open>None\<close> when the loop never ends\<close>
  "actionHandler e el eventType prefix w =
     (case firstStep e el prefix (startState w) of
        Abort w' \<Rightarrow> Some (Abort w')
      | Go st \<Rightarrow>
          (case numberedSteps e el prefix 1 st of
             None \<Rightarrow> None
           | Some (Abort w') \<Rightarrow> Some (Abort w')
           | Some (Go st') \<Rightarrow> Some (afterNumbered e el eventType prefix st')))"

definition finalWorld :: "flow \<Rightarrow> world" where
  "finalWorld f = (case f of Abort w \<Rightarrow> w | Go st \<Rightarrow> wld st)"

section \<open>Attaching and detaching\<close>

definition bookTruthy :: "bookval option \<Rightarrow> bool" where
  \<comment> \<open>the truth of \<open>el._eventActions[key]\<close>: a function or an object, not \<open>null\<close>, not absent\<close>
  "bookTruthy v = (case v of Some (OrigHandler _) \<Rightarrow> True | Some (Handlers _) \<Rightarrow> True | _ \<Rightarrow> False)"

definition handlersOf :: "(string \<times> bookval) list \<Rightarrow> (string \<times> nat) list option" where
  \<comment> \<open>\<open>el._eventActions.handlers\<close>\<close>
  "handlersOf book = (case map_of book ''handlers'' of Some (Handlers hs) \<Rightarrow> Some hs | _ \<Rightarrow> None)"

text \<open>
  No event is called \<open>handlers\<close> and none has the empty name; an event type
  \<open>handlers\<close> would share the property that holds the listeners, and both are
  outside the model. The argument \<open>el\<close> is \<open>None\<close> for \<open>null\<close>.
\<close>

definition alreadyAvailable :: "element \<Rightarrow> string \<Rightarrow> bool" where
  \<comment> \<open>\<open>el._eventActions && el._eventActions[eventType]\<close>\<close>
  "alreadyAvailable elem eventType =
     (case eventActions elem of
        Some book \<Rightarrow> bookTruthy (map_of book eventType)
      | None \<Rightarrow> False)"

definition addEventActions :: "nat option \<Rightarrow> string \<Rightarrow> string \<Rightarrow> world \<Rightarrow> world" where
  "addEventActions elOpt eventType prefix w =
     (case elOpt of
        None \<Rightarrow> w
      | Some el \<Rightarrow>
          (let elem = dom w el
           in if alreadyAvailable elem eventType then w
              else
                let book0 = (case eventActions elem of Some book \<Rightarrow> book | None \<Rightarrow> []);
                    orig = (case map_of (inline elem) eventType of
                              Some h \<Rightarrow> OrigHandler h | None \<Rightarrow> OrigNull);
                    book1 = AList.update eventType orig book0;
                    handler = fresh w;
                    hs = (case handlersOf book1 of Some hs \<Rightarrow> hs | None \<Rightarrow> []);
                    book2 = AList.update ''handlers''
                              (Handlers (AList.update eventType handler hs)) book1;
                    elem' = elem\<lparr>inline := AList.delete eventType (inline elem),
                                 listeners := listeners elem @ [(eventType, handler)],
                                 eventActions := Some book2\<rparr>
                in w\<lparr>dom := (dom w)(el := elem'), fresh := Suc (fresh w)\<rparr>))"

definition removeOne :: "string \<Rightarrow> element \<Rightarrow> element" where
  \<comment> \<open>\<open>removeEventActions(el, eventType)\<close> for an event type that is given\<close>
  "removeOne eventType elem =
     (case eventActions elem of
        None \<Rightarrow> elem
      | Some book \<Rightarrow>
          if \<not> bookTruthy (map_of book eventType) then elem
          else
            let (lst, book1) =
                  (case handlersOf book of
                     Some hs \<Rightarrow>
                       (case map_of hs eventType of
                          Some l \<Rightarrow>
                            (remove1 (eventType, l) (listeners elem),
                             AList.update ''handlers''
                               (Handlers (AList.delete eventType hs)) book)
                        | None \<Rightarrow> (listeners elem, book))
                   | None \<Rightarrow> (listeners elem, book));
                inl = (case map_of book1 eventType of
                         Some (OrigHandler h) \<Rightarrow> AList.update eventType h (inline elem)
                       | _ \<Rightarrow> AList.delete eventType (inline elem));
                book2 = (if bookTruthy (map_of book1 eventType)
                         then AList.delete eventType book1 else book1)
            in elem\<lparr>inline := inl, listeners := lst,
                    eventActions := (if handlersOf book2 = Some [] then None else Some book2)\<rparr>)"

definition removeEventActions :: "nat option \<Rightarrow> string option \<Rightarrow> world \<Rightarrow> world" where
  "removeEventActions elOpt eventType w =
     (case elOpt of
        None \<Rightarrow> w
      | Some el \<Rightarrow>
          (case eventActions (dom w el) of
             None \<Rightarrow> w
           | Some book \<Rightarrow>
               (case orNull eventType of
                  None \<Rightarrow> w\<lparr>dom := (dom w)(el := fold removeOne (map fst book) (dom w el))\<rparr>
                | Some t \<Rightarrow> w\<lparr>dom := (dom w)(el := removeOne t (dom w el))\<rparr>)))"

section \<open>Observing a run\<close>

definition stepEvents :: "event list \<Rightarrow> event list" where
  \<comment> \<open>the steps the interpreter calls and the replays of the inline handler, in order\<close>
  "stepEvents es =
     filter (\<lambda>ev. case ev of Invoke _ \<Rightarrow> True | NativeReplay _ \<Rightarrow> True | _ \<Rightarrow> False) es"

text \<open>
  \<open>stateAfter e el prefix w k\<close> is the state of the listener, run in world \<open>w\<close>,
  when the first action and the numbered actions 1 to \<open>k\<close> have been executed: each
  was found, and was reached with \<open>conditionMet\<close> true. It is \<open>None\<close> when the run
  does not get that far.
\<close>

fun stateAfter :: "env \<Rightarrow> nat \<Rightarrow> string \<Rightarrow> world \<Rightarrow> nat \<Rightarrow> istate option" where
  "stateAfter e el prefix w 0 =
     (case firstStep e el prefix (startState w) of Go st \<Rightarrow> Some st | Abort _ \<Rightarrow> None)"
| "stateAfter e el prefix w (Suc k) =
     (case stateAfter e el prefix w k of
        None \<Rightarrow> None
      | Some st \<Rightarrow>
          if conditionMet st \<and> length (stepOptions el prefix (Numbered (Suc k)) (wld st)) > 0
          then (case numberedStep e el (stepOptions el prefix (Numbered (Suc k)) (wld st))
                       (Suc k) st of
                  Go st' \<Rightarrow> Some st'
                | Abort _ \<Rightarrow> None)
          else None)"

definition reaches :: "env \<Rightarrow> nat \<Rightarrow> string \<Rightarrow> world \<Rightarrow> stepName \<Rightarrow> istate \<Rightarrow> bool" where
  \<comment> \<open>the listener, run in world \<open>w\<close>, comes to look for the first or a numbered
      action in state \<open>st\<close>\<close>
  "reaches e el prefix w name st =
     (case name of
        First \<Rightarrow> st = startState w
      | Numbered i \<Rightarrow>
          (case i of
             0 \<Rightarrow> False
           | Suc k \<Rightarrow> stateAfter e el prefix w k = Some st \<and> conditionMet st)
      | _ \<Rightarrow> False)"


definition stepGate :: "env \<Rightarrow> nat \<Rightarrow> string \<Rightarrow> stepName \<Rightarrow> istate \<Rightarrow> gate" where
  \<comment> \<open>the head of \<open>executeAction\<close> as the listener calls it for a step\<close>
  "stepGate e el prefix name st =
     gateOf e el (assignDefaults (stepOptions el prefix name (wld st)))
       (emit [Invoke name] (wld st))"

section \<open>An example page\<close>

text \<open>
  A page without Bootstrap whose user cancels every dialog. The texts \<open>true\<close> and
  \<open>false\<close> evaluate to themselves and any other condition throws; the selector
  \<open>.item\<close> matches the elements 1 and 2, any other selector nothing; the custom
  expressions and the inline handlers leave the document as it is.
\<close>

definition exampleEnv :: env where
  "exampleEnv =
     \<lparr>documentQuery = (\<lambda>sel d. if sel = ''.item'' then Some [1, 2] else Some []),
      elementQuery = (\<lambda>el sel d. Some []),
      evalCondition = (\<lambda>c el ts d. if c = ''true'' then Some True
                                     else if c = ''false'' then Some False else None),
      evalExecute = (\<lambda>x el ts d. (False, d)),
      callInline = (\<lambda>h el d. (False, d)),
      dialogAccepted = (\<lambda>n. False),
      hasBootstrap = False\<rparr>"

definition plainElement :: "(string \<times> string) list \<Rightarrow> element" where
  \<comment> \<open>an element with these attributes, the content \<open>A\<close> and no handler\<close>
  "plainElement attrs =
     \<lparr>attributes = attrs, classList = [], content = ''A'',
      scrollTop = 5, scrollLeft = 5, scrollHeight = 100, scrollWidth = 50,
      inline = [], listeners = [], eventActions = None\<rparr>"

definition plainWorld :: "(string \<times> string) list \<Rightarrow> world" where
  \<comment> \<open>element 0 has the attributes; the other elements have none\<close>
  "plainWorld attrs =
     \<lparr>dom = (\<lambda>n. if n = 0 then plainElement attrs else plainElement []),
      trace = [], dialogs = 0, fresh = 0\<rparr>"

definition attachedWorld :: "(string \<times> string) list \<Rightarrow> world" where
  \<comment> \<open>the same page after \<open>addEventActions(el, 'click', 'ca')\<close> on element 0, which had
      the inline \<open>onclick\<close> handler 7\<close>
  "attachedWorld attrs =
     \<lparr>dom = (\<lambda>n. if n = 0
                  then (plainElement attrs)
                         \<lparr>listeners := [(''click'', 0)],
                          eventActions := Some [(''click'', OrigHandler 7),
                                                (''handlers'', Handlers [(''click'', 0)])]\<rparr>
                  else plainElement []),
      trace = [], dialogs = 0, fresh = 1\<rparr>"

section \<open>Properties\<close>

lemmas str_defs = isSpace_def isDigit_def trim_def trimStart_def endsWith_def sliceEnd_def
  startsWith_def signOf_def exponentOf_def digitVal_def digitsVal_def

subsection \<open>The option reader\<close>







subsection \<open>The delay of the \<open>data-class-*\<close> family\<close>

lemma dataClassDelay_examples:
  "dataClassDelay None = (Fin 0, [])"
  "dataClassDelay (Some ''250'') = (Fin 250, [])"
  "dataClassDelay (Some ''2s'') = (Fin 2000, [])"
  "dataClassDelay (Some ''abc'') = (Fin 0, [WarnInvalidDelay ''abc''])"
  "dataClassDelay (Some ''-5'') = (Fin 0, [WarnInvalidDelay ''-5''])"
  by (simp_all add: dataClassDelay_def parseFloat_def numTimes_def isNaN_def numLess0_def str_defs)

text \<open>
  C8. In the \<open>data-class-*\<close> family the delay attribute is said to take a unit suffix,
  \<open>Nms\<close> waiting N milliseconds. The handler tests for a trailing \<open>s\<close> before it tests
  for a trailing \<open>ms\<close>, so \<open>500ms\<close> takes the seconds branch: the \<open>m\<close> is left on the
  text, \<open>parseFloat\<close> reads 500 from \<open>500m\<close>, and the delay is 500 * 1000
  milliseconds, with no warning.
\<close>

theorem dataClassDelay_ms_suffix:
  "dataClassDelay (Some ''500ms'') = (Fin 500000, [])"
  by (simp add: dataClassDelay_def parseFloat_def numTimes_def isNaN_def numLess0_def str_defs)

subsection \<open>What the stages of an action and the listener add to the trace\<close>

lemma stepEvents_append [simp]: "stepEvents (xs @ ys) = stepEvents xs @ stepEvents ys"
  by (simp add: stepEvents_def)

lemma stepEvents_simps [simp]:
  "stepEvents [] = []"
  "stepEvents (Console c # es) = stepEvents es"
  "stepEvents (ConfirmDialog m a b # es) = stepEvents es"
  "stepEvents (MessageDialog m a # es) = stepEvents es"
  "stepEvents (Executed x # es) = stepEvents es"
  "stepEvents (Waited n # es) = stepEvents es"
  "stepEvents (SplashShown s # es) = stepEvents es"
  "stepEvents (SplashHidden # es) = stepEvents es"
  "stepEvents (PreventDefault # es) = stepEvents es"
  "stepEvents (StopPropagation # es) = stepEvents es"
  "stepEvents (Invoke nm # es) = Invoke nm # stepEvents es"
  "stepEvents (NativeReplay h # es) = NativeReplay h # stepEvents es"
  by (simp_all add: stepEvents_def)

lemma emit_simps [simp]:
  "trace (emit es w) = trace w @ es"
  "dom (emit es w) = dom w"
  "dialogs (emit es w) = dialogs w"
  "fresh (emit es w) = fresh w"
  by (simp_all add: emit_def)

lemma resolveTargets_world:
  "stepEvents (trace (snd (resolveTargets e el opts w))) = stepEvents (trace w)"
  "dom (snd (resolveTargets e el opts w)) = dom w"
  "dialogs (snd (resolveTargets e el opts w)) = dialogs w"
  by (auto simp: resolveTargets_def Let_def split: option.splits prod.splits)

lemma conditionStage_world:
  "stepEvents (trace (snd (conditionStage e el ts opts w))) = stepEvents (trace w)"
  "dom (snd (conditionStage e el ts opts w)) = dom w"
  "dialogs (snd (conditionStage e el ts opts w)) = dialogs w"
  by (auto simp: conditionStage_def split: option.splits)

lemma conditionActionStage_world:
  "stepEvents (trace (snd (conditionActionStage e el ts opts w))) = stepEvents (trace w)"
  "dom (snd (conditionActionStage e el ts opts w)) = dom w"
  "dialogs (snd (conditionActionStage e el ts opts w)) = dialogs w"
  by (auto simp: conditionActionStage_def split: option.splits)

lemma openDialog_world:
  "stepEvents (trace (openDialog e ev w)) = stepEvents (trace w) @ stepEvents [ev]"
  "dom (openDialog e ev w) = dom w"
  by (auto simp: openDialog_def)

lemma confirmStage_world:
  "stepEvents (trace (snd (confirmStage e opts w))) = stepEvents (trace w)"
  "dom (snd (confirmStage e opts w)) = dom w"
  by (auto simp: confirmStage_def openDialog_world Let_def split: option.splits)

lemma executeStage_trace:
  "stepEvents (trace (executeStage e el ts opts w)) = stepEvents (trace w)"
  by (auto simp: executeStage_def Let_def split: option.splits prod.splits)

lemma acknowledgeStage_world:
  "stepEvents (trace (snd (acknowledgeStage e opts w))) = stepEvents (trace w)"
  "dom (snd (acknowledgeStage e opts w)) = dom w"
  by (auto simp: acknowledgeStage_def openDialog_world Let_def split: option.splits)

lemma effectsStage_trace:
  "stepEvents (trace (snd (effectsStage e ts opts w))) = stepEvents (trace w)"
  by (auto simp: effectsStage_def acknowledgeStage_world Let_def split: option.splits)

lemma gateOf_world:
  "stepEvents (trace (gateWorld (gateOf e el opts w))) = stepEvents (trace w)"
  "dom (gateWorld (gateOf e el opts w)) = dom w"
  by (auto simp: gateOf_def Let_def split_beta resolveTargets_world conditionStage_world
      conditionActionStage_world confirmStage_world)

lemma executeAction_trace:
  "stepEvents (trace (snd (executeAction e el opts w))) = stepEvents (trace w)"
proof (cases "gateOf e el opts w")
  case (Proceeds ts w4)
  then have "stepEvents (trace w4) = stepEvents (trace w)"
    using gateOf_world(1) [of e el opts w] by simp
  with Proceeds show ?thesis
    by (simp add: executeAction_def effectsStage_trace executeStage_trace)
qed (use gateOf_world(1) [of e el opts w] in \<open>simp_all add: executeAction_def\<close>)


lemma hideSplash_simps [simp]:
  "conditionMet (hideSplash st) = conditionMet st"
  "stepEvents (trace (wld (hideSplash st))) = stepEvents (trace (wld st))"
  "dom (wld (hideSplash st)) = dom (wld st)"
  by (simp_all add: hideSplash_def)

lemma splashDialog_simps [simp]:
  "conditionMet (splashDialog e s st) = conditionMet st"
  "stepEvents (trace (wld (splashDialog e s st))) = stepEvents (trace (wld st))"
  "dom (wld (splashDialog e s st)) = dom (wld st)"
  by (simp_all add: splashDialog_def)

lemma showSplash_simps [simp]:
  "conditionMet (showSplash e opts st) = conditionMet st"
  "stepEvents (trace (wld (showSplash e opts st))) = stepEvents (trace (wld st))"
  "dom (wld (showSplash e opts st)) = dom (wld st)"
  by (simp_all add: showSplash_def split: option.splits)

lemma stepOptions_dom:
  "dom w = dom w' \<Longrightarrow> stepOptions el prefix name w = stepOptions el prefix name w'"
  by (simp add: stepOptions_def)

lemma numberedSteps_unmet:
  "\<not> conditionMet st \<Longrightarrow> numberedSteps e el prefix i st = Some (Go st)"
  by (subst numberedSteps.simps) simp

lemma numberedSteps_absent:
  "length (stepOptions el prefix (Numbered i) (wld st)) = 0 \<Longrightarrow>
   numberedSteps e el prefix i st = Some (Go st)"
  by (subst numberedSteps.simps) simp

lemma numberedSteps_present:
  "conditionMet st \<Longrightarrow> length (stepOptions el prefix (Numbered i) (wld st)) > 0 \<Longrightarrow>
   numberedSteps e el prefix i st =
     (case numberedStep e el (stepOptions el prefix (Numbered i) (wld st)) i st of
        Abort w \<Rightarrow> Some (Abort w)
      | Go st' \<Rightarrow> numberedSteps e el prefix (Suc i) st')"
  by (subst numberedSteps.simps) simp

lemma closingStep_events:
  "stepEvents (trace (finalWorld (closingStep e el prefix name st))) =
     stepEvents (trace (wld st)) @
       (if length (stepOptions el prefix name (wld st)) > 0 then [Invoke name] else [])"
  using executeAction_trace [of e el "assignDefaults (stepOptions el prefix name (wld st))"
      "emit [Invoke name] (wld st)"]
  by (auto simp: closingStep_def finalWorld_def Let_def
      split: prod.splits completion.splits)

lemma closingStep_Go:
  "closingStep e el prefix name st = Go st' \<Longrightarrow> conditionMet st' = conditionMet st"
  by (auto simp: closingStep_def Let_def split: prod.splits completion.splits if_splits)

lemma replayInline_unmet:
  "\<not> conditionMet st \<Longrightarrow> replayInline e el eventType st = Go st"
  by (simp add: replayInline_def)

lemma afterNumbered_unmet:
  assumes "\<not> conditionMet st"
  shows "stepEvents (trace (finalWorld (afterNumbered e el eventType prefix st))) =
     stepEvents (trace (wld st)) @
       (if length (stepOptions el prefix Finally (wld st)) > 0 then [Invoke Finally] else [])"
proof (cases "closingStep e el prefix Finally st")
  case (Go st')
  then have "\<not> conditionMet st'"
    using assms closingStep_Go by blast
  moreover have "stepEvents (trace (wld st')) =
     stepEvents (trace (wld st)) @
       (if length (stepOptions el prefix Finally (wld st)) > 0 then [Invoke Finally] else [])"
    using closingStep_events [of e el prefix Finally st] Go by (simp add: finalWorld_def)
  ultimately show ?thesis
    using assms Go by (simp add: afterNumbered_def replayInline_unmet finalWorld_def)
next
  case (Abort w')
  then show ?thesis
    using assms closingStep_events [of e el prefix Finally st]
    by (simp add: afterNumbered_def finalWorld_def)
qed

lemma actionHandler_stateAfter:
  "stateAfter e el prefix w k = Some st \<Longrightarrow>
   actionHandler e el eventType prefix w =
     (case numberedSteps e el prefix (Suc k) st of
        None \<Rightarrow> None
      | Some (Abort w') \<Rightarrow> Some (Abort w')
      | Some (Go st') \<Rightarrow> Some (afterNumbered e el eventType prefix st'))"
proof (induction k arbitrary: st)
  case 0
  then show ?case
    by (auto simp: actionHandler_def split: flow.splits)
next
  case (Suc k)
  from Suc.prems obtain st0 where
    st0: "stateAfter e el prefix w k = Some st0" and
    met: "conditionMet st0" and
    present: "length (stepOptions el prefix (Numbered (Suc k)) (wld st0)) > 0" and
    step: "numberedStep e el (stepOptions el prefix (Numbered (Suc k)) (wld st0)) (Suc k) st0 = Go st"
    by (auto split: option.splits if_splits flow.splits)
  show ?case
    by (simp add: Suc.IH [OF st0] numberedSteps_present [OF met present] step)
qed


lemma firstStep_falsy:
  assumes "length (stepOptions el prefix First (wld st)) > 0"
      and "executeAction e el (assignDefaults (stepOptions el prefix First (wld st)))
             (emit [Invoke First] (wld st)) = (Returned r, w')"
      and "r \<noteq> RetTrue"
  shows "\<exists>st'. firstStep e el prefix st = Go st' \<and> \<not> conditionMet st' \<and>
           stepEvents (trace (wld st')) = stepEvents (trace w') \<and> dom (wld st') = dom w'"
  using assms by (simp add: firstStep_def Let_def)

lemma numberedStep_falsy:
  assumes "executeAction e el (assignDefaults options) (emit [Invoke (Numbered i)] (wld st))
             = (Returned r, w')"
      and "r \<noteq> RetTrue"
  shows "\<exists>st'. numberedStep e el options i st = Go st' \<and> \<not> conditionMet st' \<and>
           stepEvents (trace (wld st')) = stepEvents (trace w') \<and> dom (wld st') = dom w'"
  using assms by (simp add: numberedStep_def Let_def)

lemma sequence_stops:
  assumes reach: "reaches e el prefix w name st"
      and present: "length (stepOptions el prefix name (wld st)) > 0"
      and exec: "executeAction e el (assignDefaults (stepOptions el prefix name (wld st)))
                   (emit [Invoke name] (wld st)) = (Returned r, w')"
      and falsy: "r \<noteq> RetTrue"
  shows "\<exists>f. actionHandler e el eventType prefix w = Some f \<and>
           stepEvents (trace (finalWorld f)) =
             stepEvents (trace (wld st)) @ Invoke name #
               (if length (stepOptions el prefix Finally w') > 0 then [Invoke Finally] else [])"
proof -
  have tr: "stepEvents (trace w') = stepEvents (trace (wld st)) @ [Invoke name]"
    using executeAction_trace [of e el "assignDefaults (stepOptions el prefix name (wld st))"
        "emit [Invoke name] (wld st)"] exec by simp
  have fin: "\<And>st'. \<not> conditionMet st' \<Longrightarrow> stepEvents (trace (wld st')) = stepEvents (trace w') \<Longrightarrow>
      dom (wld st') = dom w' \<Longrightarrow>
      stepEvents (trace (finalWorld (afterNumbered e el eventType prefix st'))) =
        stepEvents (trace (wld st)) @ Invoke name #
          (if length (stepOptions el prefix Finally w') > 0 then [Invoke Finally] else [])"
  proof -
    fix st' :: istate
    assume a: "\<not> conditionMet st'" "stepEvents (trace (wld st')) = stepEvents (trace w')"
       "dom (wld st') = dom w'"
    have "stepOptions el prefix Finally (wld st') = stepOptions el prefix Finally w'"
      using a(3) by (rule stepOptions_dom)
    then show "stepEvents (trace (finalWorld (afterNumbered e el eventType prefix st'))) =
        stepEvents (trace (wld st)) @ Invoke name #
          (if length (stepOptions el prefix Finally w') > 0 then [Invoke Finally] else [])"
      using a(1,2) tr by (simp add: afterNumbered_unmet)
  qed
  show ?thesis
  proof (cases name)
    case First
    with reach have st: "st = startState w"
      by (simp add: reaches_def)
    from firstStep_falsy [OF present [unfolded First] exec [unfolded First] falsy]
    obtain st' where st': "firstStep e el prefix st = Go st'" "\<not> conditionMet st'"
        "stepEvents (trace (wld st')) = stepEvents (trace w')" "dom (wld st') = dom w'"
      by blast
    have "actionHandler e el eventType prefix w = Some (afterNumbered e el eventType prefix st')"
      using st st' by (simp add: actionHandler_def numberedSteps_unmet)
    then show ?thesis
      using fin [OF st'(2-4)] First by simp
  next
    case (Numbered i)
    with reach obtain k where i: "i = Suc k" and
        after: "stateAfter e el prefix w k = Some st" and met: "conditionMet st"
      by (auto simp: reaches_def split: nat.splits)
    from numberedStep_falsy [OF exec [unfolded Numbered] falsy]
    obtain st' where st': "numberedStep e el (stepOptions el prefix (Numbered i) (wld st)) i st = Go st'"
        "\<not> conditionMet st'"
        "stepEvents (trace (wld st')) = stepEvents (trace w')" "dom (wld st') = dom w'"
      by blast
    have "numberedSteps e el prefix (Suc k) st = Some (Go st')"
      using numberedSteps_present [OF met present [unfolded Numbered]] st' i
      by (simp add: numberedSteps_unmet)
    then have "actionHandler e el eventType prefix w = Some (afterNumbered e el eventType prefix st')"
      by (simp add: actionHandler_stateAfter [OF after])
    then show ?thesis
      using fin [OF st'(2-4)] Numbered by simp
  next
    case Last
    with reach show ?thesis by (simp add: reaches_def)
  next
    case Finally
    with reach show ?thesis by (simp add: reaches_def)
  qed
qed


lemma classesIntersect_iff:
  "classesIntersect a r t \<longleftrightarrow>
     (\<exists>c. c \<in> set a \<and> c \<in> set r \<or> c \<in> set a \<and> c \<in> set t \<or> c \<in> set r \<and> c \<in> set t)"
  by (auto simp: classesIntersect_def filter_empty_conv)

lemma effectsStage_conflict:
  "classesIntersect (classListOf (classAdd opts)) (classListOf (classRemove opts))
     (classListOf (classToggle opts)) \<Longrightarrow>
   effectsStage e ts opts w =
     (Returned RetFalse,
      emit [Console (WarnClassConflict (classListOf (classAdd opts)) (classListOf (classRemove opts))
                       (classListOf (classToggle opts)))] w)"
  by (simp add: effectsStage_def)

lemma effectsStage_invalid_method:
  "\<not> classesIntersect (classListOf (classAdd opts)) (classListOf (classRemove opts))
     (classListOf (classToggle opts)) \<Longrightarrow>
   sanitizeValue (orText (contentMethod opts) ''innerHTML'') \<notin>
     {Some ''innerHTML'', Some ''textContent''} \<Longrightarrow>
   effectsStage e ts opts w =
     (Returned RetUndefined,
      emit [Console (WarnContentMethod (sanitizeValue (orText (contentMethod opts) ''innerHTML'')))] w)"
  by (simp add: effectsStage_def)

lemma onTargets_Nil: "onTargets f [] d = d"
  by (simp add: onTargets_def)

lemma onTargets_Cons: "onTargets f (t # ts) d = onTargets f ts (d(t := f (d t)))"
  by (simp add: onTargets_def)

lemma onTargets_field:
  assumes "\<And>x. P (f x) = P x"
  shows "P (onTargets f ts d u) = P (d u)"
  by (induction ts arbitrary: d) (simp_all add: onTargets_Nil onTargets_Cons assms)

lemma onTargets_other:
  "u \<notin> set ts \<Longrightarrow> onTargets f ts d u = d u"
  by (induction ts arbitrary: d) (simp_all add: onTargets_Nil onTargets_Cons)

lemma onTargets_distinct:
  "distinct ts \<Longrightarrow> u \<in> set ts \<Longrightarrow> onTargets f ts d u = f (d u)"
proof (induction ts arbitrary: d)
  case Nil
  then show ?case by simp
next
  case (Cons t ts)
  show ?case
  proof (cases "u = t")
    case True
    with Cons.prems have "u \<notin> set ts" by simp
    then show ?thesis
      using True by (simp add: onTargets_Cons onTargets_other)
  next
    case False
    with Cons show ?thesis by (simp add: onTargets_Cons)
  qed
qed

lemma scrollElement_fields [simp]:
  "classList (scrollElement k x) = classList x"
  "content (scrollElement k x) = content x"
  by (simp_all add: scrollElement_def)

lemma applyClassesTo_fields [simp]:
  "scrollTop (applyClassesTo s t a r x) = scrollTop x"
  "scrollLeft (applyClassesTo s t a r x) = scrollLeft x"
  "scrollHeight (applyClassesTo s t a r x) = scrollHeight x"
  "scrollWidth (applyClassesTo s t a r x) = scrollWidth x"
  "content (applyClassesTo s t a r x) = content x"
  by (simp_all add: applyClassesTo_def)

lemma applyContentTo_fields [simp]:
  "scrollTop (applyContentTo c s a p x) = scrollTop x"
  "scrollLeft (applyContentTo c s a p x) = scrollLeft x"
  "scrollHeight (applyContentTo c s a p x) = scrollHeight x"
  "scrollWidth (applyContentTo c s a p x) = scrollWidth x"
  "classList (applyContentTo c s a p x) = classList x"
  by (simp_all add: applyContentTo_def Let_def)

lemma applyContentTo_content:
  "content x = content y \<Longrightarrow> content (applyContentTo c s a p x) = content (applyContentTo c s a p y)"
  by (simp add: applyContentTo_def Let_def split: option.splits)

lemma effectsStage_applies:
  assumes "\<not> classesIntersect (classListOf (classAdd opts)) (classListOf (classRemove opts))
             (classListOf (classToggle opts))"
      and "sanitizeValue (orText (contentMethod opts) ''innerHTML'') \<in>
             {Some ''innerHTML'', Some ''textContent''}"
      and "invalidKeyword (sanitizeValue (orNull (scrollTo opts))) = None"
  shows "dom (snd (effectsStage e ts opts w)) = applyEffects ts opts (dom w)"
  using assms by (auto simp: effectsStage_def Let_def acknowledgeStage_world)













subsection \<open>Gates: the sequence-level condition and the confirmation\<close>




subsection \<open>The step-level condition\<close>



subsection \<open>Conflicting class lists\<close>

text \<open>
  C4, as amended. Take an action that passes its conditions and its confirmation. If a
  class name is in more than one of the lists to add, to remove and to toggle, then
  \<open>executeAction\<close> logs the warning and returns \<open>false\<close> at that point: the world
  is the one the custom \<open>execute\<close> left, plus the warning. No class is changed on any
  target, and the content, scroll, delay and acknowledgement of the action are not
  performed either; its confirmation and its custom \<open>execute\<close> came before the check.
\<close>

theorem class_conflict_ends_step:
  assumes "gateOf e el opts w = Proceeds ts w4"
      and "c \<in> set (classListOf (classAdd opts)) \<and> c \<in> set (classListOf (classRemove opts)) \<or>
           c \<in> set (classListOf (classAdd opts)) \<and> c \<in> set (classListOf (classToggle opts)) \<or>
           c \<in> set (classListOf (classRemove opts)) \<and> c \<in> set (classListOf (classToggle opts))"
  shows "executeAction e el opts w =
           (Returned RetFalse,
            emit [Console (WarnClassConflict (classListOf (classAdd opts))
                             (classListOf (classRemove opts)) (classListOf (classToggle opts)))]
              (executeStage e el ts opts w4)) \<and>
         dom (snd (executeAction e el opts w)) = dom (executeStage e el ts opts w4)"
proof -
  have "classesIntersect (classListOf (classAdd opts)) (classListOf (classRemove opts))
          (classListOf (classToggle opts))"
    using assms(2) unfolding classesIntersect_iff by blast
  then show ?thesis
    using assms(1) by (simp add: executeAction_def effectsStage_conflict)
qed

text \<open>
  An action that adds \<open>a b\<close>, removes \<open>b\<close> and sets the content to \<open>B\<close>.
\<close>

theorem class_conflict_ends_step_witness:
  "(let w = plainWorld [(''data-ca-class-add'', ''a b''), (''data-ca-class-remove'', ''b''),
              (''data-ca-content-set'', ''B'')];
        opts = assignDefaults (stepOptions 0 ''ca'' First w);
        g = gateOf exampleEnv 0 opts w
    in g = Proceeds [0] (gateWorld g) \<and>
       ''b'' \<in> set (classListOf (classAdd opts)) \<and> ''b'' \<in> set (classListOf (classRemove opts)) \<and>
       fst (executeAction exampleEnv 0 opts w) = Returned RetFalse \<and>
       dom (snd (executeAction exampleEnv 0 opts w)) =
         dom (executeStage exampleEnv 0 [0] opts (gateWorld g)))"
proof -
  let ?w = "plainWorld [(''data-ca-class-add'', ''a b''), (''data-ca-class-remove'', ''b''),
              (''data-ca-content-set'', ''B'')]"
  let ?opts = "assignDefaults (stepOptions 0 ''ca'' First ?w)"
  let ?g = "gateOf exampleEnv 0 ?opts ?w"
  have "case ?g of Proceeds ts _ \<Rightarrow> ts = [0] | _ \<Rightarrow> False"
    by code_simp
  then have h1: "?g = Proceeds [0] (gateWorld ?g)"
    by (cases ?g) simp_all
  have h2: "''b'' \<in> set (classListOf (classAdd ?opts)) \<and> ''b'' \<in> set (classListOf (classRemove ?opts))"
    by code_simp
  from class_conflict_ends_step [OF h1, of "''b''"] h1 h2 show ?thesis
    unfolding Let_def by simp
qed

text \<open>
  The claim as stated says that the other effects of the action are not aborted. With
  the same action the content of the target stays \<open>A\<close>: the content mutation of the
  action is not performed.
\<close>

theorem class_conflict_aborts_content:
  "(let w = plainWorld [(''data-ca-class-add'', ''a b''), (''data-ca-class-remove'', ''b''),
              (''data-ca-content-set'', ''B'')];
        opts = assignDefaults (stepOptions 0 ''ca'' First w);
        r = executeAction exampleEnv 0 opts w
    in contentSet opts = Some ''B'' \<and> fst r = Returned RetFalse \<and>
       content (dom w 0) = ''A'' \<and> content (dom (snd r) 0) = ''A'')"
  by code_simp

subsection \<open>An invalid content method\<close>

text \<open>
  C5, as amended. Take an action that passes its conditions and its confirmation, and
  whose class lists do not conflict. If its content method, sanitized, is neither
  \<open>innerHTML\<close> nor \<open>textContent\<close>, then \<open>executeAction\<close> logs the warning and
  returns \<open>undefined\<close> at that point: the world is the one the custom \<open>execute\<close>
  left, plus the warning. The class mutation of the action is not applied either, since
  \<open>applyClasses\<close> is only called after this check; nor are content, scroll, delay and
  acknowledgement.
\<close>

theorem invalid_accessor_ends_step:
  assumes "gateOf e el opts w = Proceeds ts w4"
      and "\<not> classesIntersect (classListOf (classAdd opts)) (classListOf (classRemove opts))
             (classListOf (classToggle opts))"
      and "sanitizeValue (orText (contentMethod opts) ''innerHTML'') \<notin>
             {Some ''innerHTML'', Some ''textContent''}"
  shows "executeAction e el opts w =
           (Returned RetUndefined,
            emit [Console (WarnContentMethod
                             (sanitizeValue (orText (contentMethod opts) ''innerHTML'')))]
              (executeStage e el ts opts w4)) \<and>
         dom (snd (executeAction e el opts w)) = dom (executeStage e el ts opts w4)"
  using assms by (simp add: executeAction_def effectsStage_invalid_method)

text \<open>
  An action that adds the class \<open>x\<close> and names the content method \<open>bogus\<close>.
\<close>

theorem invalid_accessor_ends_step_witness:
  "(let w = plainWorld [(''data-ca-class-add'', ''x''), (''data-ca-content-method'', ''bogus'')];
        opts = assignDefaults (stepOptions 0 ''ca'' First w);
        g = gateOf exampleEnv 0 opts w
    in g = Proceeds [0] (gateWorld g) \<and>
       \<not> classesIntersect (classListOf (classAdd opts)) (classListOf (classRemove opts))
           (classListOf (classToggle opts)) \<and>
       sanitizeValue (orText (contentMethod opts) ''innerHTML'') \<notin>
           {Some ''innerHTML'', Some ''textContent''} \<and>
       fst (executeAction exampleEnv 0 opts w) = Returned RetUndefined \<and>
       dom (snd (executeAction exampleEnv 0 opts w)) =
         dom (executeStage exampleEnv 0 [0] opts (gateWorld g)))"
proof -
  let ?w = "plainWorld [(''data-ca-class-add'', ''x''), (''data-ca-content-method'', ''bogus'')]"
  let ?opts = "assignDefaults (stepOptions 0 ''ca'' First ?w)"
  let ?g = "gateOf exampleEnv 0 ?opts ?w"
  have "case ?g of Proceeds ts _ \<Rightarrow> ts = [0] | _ \<Rightarrow> False"
    by code_simp
  then have h1: "?g = Proceeds [0] (gateWorld ?g)"
    by (cases ?g) simp_all
  have h2: "\<not> classesIntersect (classListOf (classAdd ?opts)) (classListOf (classRemove ?opts))
           (classListOf (classToggle ?opts))"
    by code_simp
  have "sanitizeValue (orText (contentMethod ?opts) ''innerHTML'') = Some ''bogus''"
    by code_simp
  then have h3: "sanitizeValue (orText (contentMethod ?opts) ''innerHTML'') \<notin>
           {Some ''innerHTML'', Some ''textContent''}"
    by simp
  from invalid_accessor_ends_step [OF h1 h2 h3] h1 h2 h3 show ?thesis
    unfolding Let_def by simp
qed

text \<open>
  The claim as stated says that the class mutations of the action have already been
  applied. With the same action the class list of the target stays empty.
\<close>

theorem invalid_accessor_leaves_classes:
  "(let w = plainWorld [(''data-ca-class-add'', ''x''), (''data-ca-content-method'', ''bogus'')];
        opts = assignDefaults (stepOptions 0 ''ca'' First w);
        r = executeAction exampleEnv 0 opts w
    in classAdd opts = Some ''x'' \<and> fst r = Returned RetUndefined \<and>
       classList (dom (snd r) 0) = [])"
  by code_simp

subsection \<open>Scrolling\<close>

text \<open>
  C6. Take an action that passes its conditions and its confirmation with a target set
  of two or more elements, whose class lists do not conflict, whose content method is
  valid and whose \<open>scrollTo\<close> is one of the four keywords. Let \<open>d\<close> be the document
  after the custom \<open>execute\<close> and \<open>d'\<close> the document when \<open>executeAction\<close> ends.
  Then \<open>d'\<close> is \<open>d\<close> with the class, content and scroll effects applied; the first
  target has the offset that the keyword asks for (\<open>bottom\<close>: its vertical offset is
  its scroll height); every other element has the scroll offsets it had; and, for a
  target set without repetition, every target has its classes and its content changed.
\<close>

theorem scroll_moves_first_target_only:
  assumes gate: "gateOf e el opts w = Proceeds (t # ts) w4"
      and more: "ts \<noteq> []"
      and noconf: "\<not> classesIntersect (classListOf (classAdd opts)) (classListOf (classRemove opts))
             (classListOf (classToggle opts))"
      and accessor: "sanitizeValue (orText (contentMethod opts) ''innerHTML'') \<in>
             {Some ''innerHTML'', Some ''textContent''}"
      and kw: "sanitizeValue (orNull (scrollTo opts)) = Some k"
      and valid: "k \<in> set [''top'', ''bottom'', ''left'', ''right'']"
  shows "(let d = dom (executeStage e el (t # ts) opts w4);
              d' = dom (snd (executeAction e el opts w))
          in d' = applyEffects (t # ts) opts d \<and>
             scrollTop (d' t) =
               (if k = ''top'' then 0 else if k = ''bottom'' then scrollHeight (d t)
                else scrollTop (d t)) \<and>
             scrollLeft (d' t) =
               (if k = ''left'' then 0 else if k = ''right'' then scrollWidth (d t)
                else scrollLeft (d t)) \<and>
             (\<forall>u. u \<noteq> t \<longrightarrow>
                scrollTop (d' u) = scrollTop (d u) \<and> scrollLeft (d' u) = scrollLeft (d u)) \<and>
             (distinct (t # ts) \<longrightarrow>
                (\<forall>u \<in> set (t # ts).
                   classList (d' u) =
                     classList (applyClassesTo (classListOf (classSet opts))
                                  (classListOf (classToggle opts)) (classListOf (classAdd opts))
                                  (classListOf (classRemove opts)) (d u)) \<and>
                   content (d' u) =
                     content (applyContentTo
                                (contentClear opts = Some ''true'' \<or> contentClear opts = Some [])
                                (sanitizeValue (orNull (contentSet opts)))
                                (sanitizeValue (orNull (contentAppend opts)))
                                (sanitizeValue (orNull (contentPrepend opts))) (d u)))))"
proof -
  define d where "d = dom (executeStage e el (t # ts) opts w4)"
  define d' where "d' = dom (snd (executeAction e el opts w))"
  have inv: "invalidKeyword (sanitizeValue (orNull (scrollTo opts))) = None"
    using kw valid by (simp add: invalidKeyword_def)
  have eff: "d' = applyEffects (t # ts) opts d"
    using gate by (simp add: d_def d'_def executeAction_def effectsStage_applies [OF noconf accessor inv])
  let ?cls = "applyClassesTo (classListOf (classSet opts)) (classListOf (classToggle opts))
                (classListOf (classAdd opts)) (classListOf (classRemove opts))"
  let ?cnt = "applyContentTo (contentClear opts = Some ''true'' \<or> contentClear opts = Some [])
                (sanitizeValue (orNull (contentSet opts)))
                (sanitizeValue (orNull (contentAppend opts)))
                (sanitizeValue (orNull (contentPrepend opts)))"
  let ?d2 = "onTargets ?cnt (t # ts) (onTargets ?cls (t # ts) d)"
  have d': "d' = ?d2(t := scrollElement k (?d2 t))"
    using eff kw by (simp add: applyEffects_def applyScroll_def Let_def)
  have top: "\<And>u. scrollTop (?d2 u) = scrollTop (d u)"
    by (simp add: onTargets_field [where P = scrollTop])
  have left: "\<And>u. scrollLeft (?d2 u) = scrollLeft (d u)"
    by (simp add: onTargets_field [where P = scrollLeft])
  have height: "\<And>u. scrollHeight (?d2 u) = scrollHeight (d u)"
    by (simp add: onTargets_field [where P = scrollHeight])
  have width: "\<And>u. scrollWidth (?d2 u) = scrollWidth (d u)"
    by (simp add: onTargets_field [where P = scrollWidth])
  have c2: "scrollTop (d' t) =
           (if k = ''top'' then 0 else if k = ''bottom'' then scrollHeight (d t)
            else scrollTop (d t))"
    using valid by (auto simp: d' scrollElement_def top height)
  have c3: "scrollLeft (d' t) =
           (if k = ''left'' then 0 else if k = ''right'' then scrollWidth (d t)
            else scrollLeft (d t))"
    using valid by (auto simp: d' scrollElement_def left width)
  have c4: "\<forall>u. u \<noteq> t \<longrightarrow> scrollTop (d' u) = scrollTop (d u) \<and> scrollLeft (d' u) = scrollLeft (d u)"
    by (simp add: d' top left)
  have c5: "distinct (t # ts) \<longrightarrow>
           (\<forall>u \<in> set (t # ts).
              classList (d' u) = classList (?cls (d u)) \<and> content (d' u) = content (?cnt (d u)))"
  proof (intro impI ballI)
    fix u assume dist: "distinct (t # ts)" and u: "u \<in> set (t # ts)"
    have a1: "onTargets ?cls (t # ts) d u = ?cls (d u)"
      using dist u by (rule onTargets_distinct)
    have a2: "?d2 u = ?cnt (onTargets ?cls (t # ts) d u)"
      using dist u by (rule onTargets_distinct)
    have "classList (d' u) = classList (?d2 u)" "content (d' u) = content (?d2 u)"
      by (simp_all add: d')
    then show "classList (d' u) = classList (?cls (d u)) \<and> content (d' u) = content (?cnt (d u))"
      using a1 a2 applyContentTo_content [of "?cls (d u)" "d u"] by simp
  qed
  from eff c2 c3 c4 c5 show ?thesis
    unfolding Let_def d_def d'_def by blast
qed

text \<open>
  An action on the targets 1 and 2 that scrolls to the bottom, adds a class and sets the
  content: element 1 is scrolled to its height 100, element 2 keeps its offsets, and both
  have the class and the content.
\<close>

theorem scroll_moves_first_target_only_witness:
  "(let w = plainWorld [(''data-ca-target'', ''.item''), (''data-ca-scroll-to'', ''bottom''),
              (''data-ca-class-add'', ''x''), (''data-ca-content-set'', ''B'')];
        opts = assignDefaults (stepOptions 0 ''ca'' First w);
        g = gateOf exampleEnv 0 opts w;
        d' = dom (snd (executeAction exampleEnv 0 opts w))
    in g = Proceeds [1, 2] (gateWorld g) \<and>
       \<not> classesIntersect (classListOf (classAdd opts)) (classListOf (classRemove opts))
           (classListOf (classToggle opts)) \<and>
       sanitizeValue (orText (contentMethod opts) ''innerHTML'') \<in>
           {Some ''innerHTML'', Some ''textContent''} \<and>
       sanitizeValue (orNull (scrollTo opts)) = Some ''bottom'' \<and>
       scrollTop (d' 1) = 100 \<and> scrollTop (d' 2) = 5 \<and> scrollLeft (d' 2) = 5 \<and>
       classList (d' 1) = [''x''] \<and> classList (d' 2) = [''x''] \<and>
       content (d' 1) = ''B'' \<and> content (d' 2) = ''B'')"
proof -
  define w where "w = plainWorld [(''data-ca-target'', ''.item''), (''data-ca-scroll-to'', ''bottom''),
              (''data-ca-class-add'', ''x''), (''data-ca-content-set'', ''B'')]"
  define opts where "opts = assignDefaults (stepOptions 0 ''ca'' First w)"
  define g where "g = gateOf exampleEnv 0 opts w"
  define d where "d = dom (executeStage exampleEnv 0 [1, 2] opts (gateWorld g))"
  define d' where "d' = dom (snd (executeAction exampleEnv 0 opts w))"
  have "case g of Proceeds ts _ \<Rightarrow> ts = [1, 2] | _ \<Rightarrow> False"
    unfolding g_def opts_def w_def by code_simp
  then have h1: "gateOf exampleEnv 0 opts w = Proceeds (1 # [2]) (gateWorld g)"
    unfolding g_def by (cases "gateOf exampleEnv 0 opts w") simp_all
  have h2: "\<not> classesIntersect (classListOf (classAdd opts)) (classListOf (classRemove opts))
           (classListOf (classToggle opts))"
    unfolding opts_def w_def by code_simp
  have "sanitizeValue (orText (contentMethod opts) ''innerHTML'') = Some ''innerHTML''"
    unfolding opts_def w_def by code_simp
  then have h3: "sanitizeValue (orText (contentMethod opts) ''innerHTML'') \<in>
           {Some ''innerHTML'', Some ''textContent''}"
    by simp
  have h4: "sanitizeValue (orNull (scrollTo opts)) = Some ''bottom''"
    unfolding opts_def w_def by code_simp
  have h5: "''bottom'' \<in> set [''top'', ''bottom'', ''left'', ''right'']"
    by simp
  have h6: "[2::nat] \<noteq> []"
    by simp
  have e1: "scrollHeight (d 1) = 100"
    unfolding d_def g_def opts_def w_def by code_simp
  have e2: "scrollTop (d 2) = 5"
    unfolding d_def g_def opts_def w_def by code_simp
  have e3: "scrollLeft (d 2) = 5"
    unfolding d_def g_def opts_def w_def by code_simp
  have e4: "classList (applyClassesTo (classListOf (classSet opts)) (classListOf (classToggle opts))
              (classListOf (classAdd opts)) (classListOf (classRemove opts)) (d 1)) = [''x'']"
    unfolding d_def g_def opts_def w_def by code_simp
  have e5: "classList (applyClassesTo (classListOf (classSet opts)) (classListOf (classToggle opts))
              (classListOf (classAdd opts)) (classListOf (classRemove opts)) (d 2)) = [''x'']"
    unfolding d_def g_def opts_def w_def by code_simp
  have e6: "content (applyContentTo (contentClear opts = Some ''true'' \<or> contentClear opts = Some [])
              (sanitizeValue (orNull (contentSet opts))) (sanitizeValue (orNull (contentAppend opts)))
              (sanitizeValue (orNull (contentPrepend opts))) (d 1)) = ''B''"
    unfolding d_def g_def opts_def w_def by code_simp
  have e7: "content (applyContentTo (contentClear opts = Some ''true'' \<or> contentClear opts = Some [])
              (sanitizeValue (orNull (contentSet opts))) (sanitizeValue (orNull (contentAppend opts)))
              (sanitizeValue (orNull (contentPrepend opts))) (d 2)) = ''B''"
    unfolding d_def g_def opts_def w_def by code_simp
  note th = scroll_moves_first_target_only [OF h1 h6 h2 h3 h4 h5, unfolded Let_def,
      folded d_def d'_def]
  have "scrollTop (d' 1) = scrollHeight (d 1)"
    using th [THEN conjunct2, THEN conjunct1] by simp
  moreover have "scrollTop (d' 2) = scrollTop (d 2)" "scrollLeft (d' 2) = scrollLeft (d 2)"
    using th [THEN conjunct2, THEN conjunct2, THEN conjunct2, THEN conjunct1] by simp_all
  moreover have "classList (d' 1) = [''x'']" "classList (d' 2) = [''x'']"
      "content (d' 1) = ''B''" "content (d' 2) = ''B''"
    using th [THEN conjunct2, THEN conjunct2, THEN conjunct2, THEN conjunct2] e4 e5 e6 e7
    by simp_all
  ultimately show ?thesis
    using h1 h2 h3 h4 e1 e2 e3
    unfolding Let_def w_def [symmetric] opts_def [symmetric] g_def [symmetric] d'_def [symmetric]
    by simp
qed

subsection \<open>An invalid content method as a gate\<close>

text \<open>
  C9, as amended. Take a run of the listener that comes to the first action or to a
  numbered action, and finds it; let that action pass its conditions and its
  confirmation, with class lists that do not conflict and a content method that is
  invalid. Then \<open>executeAction\<close> returns \<open>undefined\<close>, the run ends, and from that
  action on the interpreter calls only that action and then the \<open>finally\<close> action
  (when the element has one): no later numbered action, not the \<open>last\<close> action, and
  no replay of the inline handler. Nothing is said here of an invalid content method in
  the \<open>last\<close> or the \<open>finally\<close> action.
\<close>

theorem invalid_accessor_stops_sequence:
  assumes "reaches e el prefix w name st"
      and "length (stepOptions el prefix name (wld st)) > 0"
      and "opts = assignDefaults (stepOptions el prefix name (wld st))"
      and "stepGate e el prefix name st = Proceeds ts w4"
      and "\<not> classesIntersect (classListOf (classAdd opts)) (classListOf (classRemove opts))
             (classListOf (classToggle opts))"
      and "sanitizeValue (orText (contentMethod opts) ''innerHTML'') \<notin>
             {Some ''innerHTML'', Some ''textContent''}"
  shows "fst (executeAction e el opts (emit [Invoke name] (wld st))) = Returned RetUndefined \<and>
         (\<exists>f. actionHandler e el eventType prefix w = Some f \<and>
              stepEvents (trace (finalWorld f)) =
                stepEvents (trace (wld st)) @ Invoke name #
                  (if length (stepOptions el prefix Finally (executeStage e el ts opts w4)) > 0
                   then [Invoke Finally] else []))"
proof -
  let ?w' = "emit [Console (WarnContentMethod
                             (sanitizeValue (orText (contentMethod opts) ''innerHTML'')))]
              (executeStage e el ts opts w4)"
  have exec: "executeAction e el (assignDefaults (stepOptions el prefix name (wld st)))
                (emit [Invoke name] (wld st)) = (Returned RetUndefined, ?w')"
    using assms(3-6) by (simp add: stepGate_def executeAction_def effectsStage_invalid_method)
  have "stepOptions el prefix Finally ?w' = stepOptions el prefix Finally (executeStage e el ts opts w4)"
    by (rule stepOptions_dom) simp
  with sequence_stops [OF assms(1,2) exec, of eventType] exec assms(3) show ?thesis
    by simp
qed

text \<open>
  The sequence first, 1 (content method \<open>bogus\<close>), 2, last, finally: the calls are
  first, 1, finally.
\<close>

theorem invalid_accessor_stops_sequence_witness:
  "(let w = attachedWorld [(''data-ca-class-add'', ''a''),
              (''data-ca-1-content-method'', ''bogus''), (''data-ca-2-class-add'', ''c''),
              (''data-ca-last-class-add'', ''d''), (''data-ca-finally-class-add'', ''f'')];
        st = the (stateAfter exampleEnv 0 ''ca'' w 0);
        opts = assignDefaults (stepOptions 0 ''ca'' (Numbered 1) (wld st));
        g = stepGate exampleEnv 0 ''ca'' (Numbered 1) st
    in reaches exampleEnv 0 ''ca'' w (Numbered 1) st \<and>
       length (stepOptions 0 ''ca'' (Numbered 1) (wld st)) > 0 \<and>
       g = Proceeds [0] (gateWorld g) \<and>
       \<not> classesIntersect (classListOf (classAdd opts)) (classListOf (classRemove opts))
           (classListOf (classToggle opts)) \<and>
       sanitizeValue (orText (contentMethod opts) ''innerHTML'') \<notin>
           {Some ''innerHTML'', Some ''textContent''} \<and>
       fst (executeAction exampleEnv 0 opts (emit [Invoke (Numbered 1)] (wld st))) =
         Returned RetUndefined \<and>
       (\<exists>f. actionHandler exampleEnv 0 ''click'' ''ca'' w = Some f \<and>
            stepEvents (trace (finalWorld f)) =
              [Invoke First, Invoke (Numbered 1), Invoke Finally]))"
proof -
  let ?w = "attachedWorld [(''data-ca-class-add'', ''a''),
              (''data-ca-1-content-method'', ''bogus''), (''data-ca-2-class-add'', ''c''),
              (''data-ca-last-class-add'', ''d''), (''data-ca-finally-class-add'', ''f'')]"
  let ?st = "the (stateAfter exampleEnv 0 ''ca'' ?w 0)"
  let ?opts = "assignDefaults (stepOptions 0 ''ca'' (Numbered 1) (wld ?st))"
  let ?g = "stepGate exampleEnv 0 ''ca'' (Numbered 1) ?st"
  have "case stateAfter exampleEnv 0 ''ca'' ?w 0 of None \<Rightarrow> False | Some st \<Rightarrow> conditionMet st"
    by code_simp
  then have h1: "reaches exampleEnv 0 ''ca'' ?w (Numbered 1) ?st"
    by (auto simp: reaches_def split: option.splits)
  have h2: "length (stepOptions 0 ''ca'' (Numbered 1) (wld ?st)) > 0"
    by code_simp
  have "case ?g of Proceeds ts _ \<Rightarrow> ts = [0] | _ \<Rightarrow> False"
    by code_simp
  then have h4: "?g = Proceeds [0] (gateWorld ?g)"
    by (cases ?g) simp_all
  have h5: "\<not> classesIntersect (classListOf (classAdd ?opts)) (classListOf (classRemove ?opts))
           (classListOf (classToggle ?opts))"
    by code_simp
  have "sanitizeValue (orText (contentMethod ?opts) ''innerHTML'') = Some ''bogus''"
    by code_simp
  then have h6: "sanitizeValue (orText (contentMethod ?opts) ''innerHTML'') \<notin>
           {Some ''innerHTML'', Some ''textContent''}"
    by simp
  have before: "stepEvents (trace (wld ?st)) = [Invoke First]"
    by code_simp
  have fin: "length (stepOptions 0 ''ca'' Finally
                       (executeStage exampleEnv 0 [0] ?opts (gateWorld ?g))) > 0"
    by code_simp
  from invalid_accessor_stops_sequence [OF h1 h2 refl h4 h5 h6, of "''click''"] h1 h2 h4 h5 h6
  show ?thesis
    unfolding before Let_def using fin by (simp del: stateAfter.simps)
qed

text \<open>
  The claim as stated, for any step, fails on the \<open>last\<close> action: with a first action
  and a \<open>last\<close> action whose content method is invalid, \<open>executeAction\<close> returns
  \<open>undefined\<close> for it and the inline handler is replayed all the same.
\<close>

theorem invalid_accessor_in_last_action_replays_inline:
  "(let w = attachedWorld [(''data-ca-class-add'', ''a''),
              (''data-ca-last-content-method'', ''bogus'')];
        st = the (stateAfter exampleEnv 0 ''ca'' w 0);
        opts = assignDefaults (stepOptions 0 ''ca'' Last (wld st))
    in \<exists>f. actionHandler exampleEnv 0 ''click'' ''ca'' w = Some f \<and>
           fst (executeAction exampleEnv 0 opts (emit [Invoke Last] (wld st))) =
             Returned RetUndefined \<and>
           stepEvents (trace (finalWorld f)) = [Invoke First, Invoke Last, NativeReplay 7])"
proof -
  let ?w = "attachedWorld [(''data-ca-class-add'', ''a''),
              (''data-ca-last-content-method'', ''bogus'')]"
  let ?st = "the (stateAfter exampleEnv 0 ''ca'' ?w 0)"
  let ?opts = "assignDefaults (stepOptions 0 ''ca'' Last (wld ?st))"
  have "case stateAfter exampleEnv 0 ''ca'' ?w 0 of None \<Rightarrow> False | Some st \<Rightarrow> True"
    by code_simp
  then have sa: "stateAfter exampleEnv 0 ''ca'' ?w 0 = Some ?st"
    by (auto split: option.splits)
  have "length (stepOptions 0 ''ca'' (Numbered 1) (wld ?st)) = 0"
    by code_simp
  then have "actionHandler exampleEnv 0 ''click'' ''ca'' ?w =
      Some (afterNumbered exampleEnv 0 ''click'' ''ca'' ?st)"
    using actionHandler_stateAfter [OF sa, of "''click''"] by (simp add: numberedSteps_absent)
  moreover have "fst (executeAction exampleEnv 0 ?opts (emit [Invoke Last] (wld ?st))) =
      Returned RetUndefined"
    by code_simp
  moreover have "stepEvents (trace (finalWorld (afterNumbered exampleEnv 0 ''click'' ''ca'' ?st))) =
      [Invoke First, Invoke Last, NativeReplay 7]"
    by code_simp
  ultimately show ?thesis
    unfolding Let_def by blast
qed

subsection \<open>Attaching and detaching\<close>

lemma removeEventActions_null_record:
  assumes "eventActions (dom w el) = Some book"
      and "map_of book eventType = Some OrigNull"
      and "eventType \<noteq> []"
  shows "removeEventActions (Some el) (Some eventType) w = w"
  using assms by (simp add: removeEventActions_def orNull_def removeOne_def bookTruthy_def)

text \<open>
  C10. Take an element that has no inline handler for an event type and is not yet
  recorded as attached for it. \<open>addEventActions\<close> then records \<open>null\<close> as the
  original handler and installs a new listener; and \<open>removeEventActions\<close> for that
  element and event type returns at its test of the recorded handler: the world is
  unchanged, so the listener is still installed and the bookkeeping is as it was.
\<close>

theorem detach_returns_early_without_inline_handler:
  assumes "map_of (inline (dom w el)) eventType = None"
      and "\<not> alreadyAvailable (dom w el) eventType"
      and "eventType \<noteq> []" and "eventType \<noteq> ''handlers''"
  shows "(let w1 = addEventActions (Some el) eventType prefix w
          in (\<exists>book. eventActions (dom w1 el) = Some book \<and>
                     map_of book eventType = Some OrigNull) \<and>
             (eventType, fresh w) \<in> set (listeners (dom w1 el)) \<and>
             removeEventActions (Some el) (Some eventType) w1 = w1)"
proof -
  define w1 where "w1 = addEventActions (Some el) eventType prefix w"
  note notTruthy = assms(2)
  have book: "\<exists>book. eventActions (dom w1 el) = Some book \<and> map_of book eventType = Some OrigNull"
    using notTruthy assms(1,4)
    by (simp add: w1_def addEventActions_def Let_def update_conv')
  have lst: "(eventType, fresh w) \<in> set (listeners (dom w1 el))"
    using notTruthy by (simp add: w1_def addEventActions_def Let_def)
  from book obtain b where "eventActions (dom w1 el) = Some b" "map_of b eventType = Some OrigNull"
    by blast
  then have "removeEventActions (Some el) (Some eventType) w1 = w1"
    using assms(3) by (rule removeEventActions_null_record)
  with book lst show ?thesis
    unfolding Let_def w1_def by blast
qed

text \<open>
  An element without \<open>onclick\<close>, attached for \<open>click\<close> and then detached.
\<close>

theorem detach_returns_early_witness:
  "map_of (inline (dom (plainWorld []) 0)) ''click'' = None \<and>
   \<not> alreadyAvailable (dom (plainWorld []) 0) ''click'' \<and>
   ''click'' \<noteq> [] \<and> ''click'' \<noteq> ''handlers'' \<and>
   (let w1 = addEventActions (Some 0) ''click'' ''ca'' (plainWorld [])
    in listeners (dom w1 0) = [(''click'', 0)] \<and>
       listeners (dom (removeEventActions (Some 0) (Some ''click'') w1) 0) = [(''click'', 0)] \<and>
       eventActions (dom (removeEventActions (Some 0) (Some ''click'') w1) 0) =
         Some [(''click'', OrigNull), (''handlers'', Handlers [(''click'', 0)])])"
proof -
  have h1: "map_of (inline (dom (plainWorld []) 0)) ''click'' = None"
    by code_simp
  have h2: "\<not> alreadyAvailable (dom (plainWorld []) 0) ''click''"
    by code_simp
  have h3: "''click'' \<noteq> []" and h4: "''click'' \<noteq> ''handlers''"
    by simp_all
  have l: "listeners (dom (addEventActions (Some 0) ''click'' ''ca'' (plainWorld [])) 0) =
      [(''click'', 0)]"
    by code_simp
  have b: "eventActions (dom (addEventActions (Some 0) ''click'' ''ca'' (plainWorld [])) 0) =
      Some [(''click'', OrigNull), (''handlers'', Handlers [(''click'', 0)])]"
    by code_simp
  from detach_returns_early_without_inline_handler [OF h1 h2 h3 h4, of "''ca''"]
  have "removeEventActions (Some 0) (Some ''click'')
          (addEventActions (Some 0) ''click'' ''ca'' (plainWorld [])) =
        addEventActions (Some 0) ''click'' ''ca'' (plainWorld [])"
    unfolding Let_def by blast
  with h1 h2 l b show ?thesis
    unfolding Let_def by simp
qed

lemma addEventActions_again:
  assumes "map_of (inline (dom w el)) eventType = Some h"
      and "\<not> alreadyAvailable (dom w el) eventType"
      and "eventType \<noteq> ''handlers''"
  shows "addEventActions (Some el) eventType prefix' (addEventActions (Some el) eventType prefix w) =
           addEventActions (Some el) eventType prefix w"
proof -
  have "alreadyAvailable (dom (addEventActions (Some el) eventType prefix w) el) eventType"
    using assms
    by (simp add: addEventActions_def Let_def alreadyAvailable_def update_conv' bookTruthy_def)
  then show ?thesis
    by (simp add: addEventActions_def [of "Some el" eventType prefix'] Let_def)
qed

text \<open>
  C3. Attaching twice is said to install no second listener. The test
  \<open>el._eventActions[eventType]\<close> reads the recorded inline handler, which is
  \<open>null\<close> for an element that had none: the second call of \<open>addEventActions\<close> does
  not return early, and the element has two listeners. (When an inline handler was
  recorded, the second call changes nothing: \<open>addEventActions_again\<close>.)
\<close>

theorem attach_twice_adds_second_listener:
  "(let w1 = addEventActions (Some 0) ''click'' ''ca'' (plainWorld []);
        w2 = addEventActions (Some 0) ''click'' ''ca'' w1
    in listeners (dom w1 0) = [(''click'', 0)] \<and>
       listeners (dom w2 0) = [(''click'', 0), (''click'', 1)])"
  by code_simp

end
